theory Spec2Isabelle
  imports Main
begin

section \<open>Dynamic casting support of the runtime (stdlib/public/runtime/Casting.cpp)\<close>

text \<open>
  A shallow embedding of the cast engine of \<^verbatim>\<open>Casting.cpp\<close>.  The embedding follows the
  build in which \<^verbatim>\<open>SWIFT_OBJC_INTEROP\<close> is 0: every \<^verbatim>\<open>#if SWIFT_OBJC_INTEROP\<close> block is
  left out and every \<^verbatim>\<open>#else\<close> block is kept.

  Type descriptors are uniqued by the runtime, so pointer equality of \<^verbatim>\<open>const Metadata *\<close>
  is equality of the descriptors below.  A C function that writes through \<^verbatim>\<open>dest\<close> or
  calls a value witness or a reference-counting entry point returns, besides its result,
  the list of those calls in the order the code makes them.  A call that does not return
  (\<^verbatim>\<open>swift_dynamicCastFailure\<close>, \<^verbatim>\<open>_failCorruptType\<close>) is the left summand of the result.
\<close>

subsection \<open>Type descriptors\<close>

datatype MetadataKind =
    Class | Struct | Enum | Optional | Opaque | Tuple | Function | Existential
  | Metatype | ObjCClassWrapper | ExistentialMetatype | ForeignClass
  | HeapLocalVariable | HeapGenericLocalVariable | ErrorObject

datatype SpecialProtocol = NoSpecialProtocol | AnyObject | ErrorProtocol

datatype ProtocolDispatchStrategy = DispatchObjC | DispatchSwift | DispatchEmpty

datatype ProtocolDescriptor =
  ProtocolDescriptor (protocolName: nat) (getSpecialProtocol: SpecialProtocol)
    (needsWitnessTable: bool) (getDispatchStrategy: ProtocolDispatchStrategy)

datatype ExistentialTypeRepresentation = RepOpaque | RepClass | RepErrorProtocol

datatype FunctionMetadataConvention = ConvSwift | ConvBlock | ConvThin | ConvCFunctionPointer

text \<open>
  One constructor for each \<^verbatim>\<open>MetadataKind\<close>, with the fields the casts read:
  the superclass link of a class, the payload type of \<^verbatim>\<open>Optional\<close>
  (\<^verbatim>\<open>getGenericArgs()[0]\<close>), the convention, throwing flag, arguments (type and
  by-reference flag) and result of a function type, the representation and the protocol
  list of an existential, the instance type of a metatype, the class an Objective-C
  wrapper wraps.  The number stands for the identity of a nominal descriptor.
  \<^verbatim>\<open>getNumArguments()\<close> of a function type is the length of its argument list.
\<close>

datatype Metadata =
    ClassMetadata nat "Metadata option"
  | StructMetadata nat
  | EnumMetadata nat
  | OptionalMetadata Metadata
  | OpaqueMetadata nat
  | TupleTypeMetadata "Metadata list"
  | FunctionTypeMetadata FunctionMetadataConvention bool "(Metadata \<times> bool) list" Metadata
  | ExistentialTypeMetadata ExistentialTypeRepresentation "ProtocolDescriptor list"
  | MetatypeMetadata Metadata
  | ObjCClassWrapperMetadata Metadata
  | ExistentialMetatypeMetadata Metadata
  | ForeignClassMetadata nat
  | HeapLocalVariableMetadata nat
  | HeapGenericLocalVariableMetadata nat
  | ErrorObjectMetadata nat

fun getKind :: "Metadata \<Rightarrow> MetadataKind" where
  "getKind (ClassMetadata _ _) = Class"
| "getKind (StructMetadata _) = Struct"
| "getKind (EnumMetadata _) = Enum"
| "getKind (OptionalMetadata _) = Optional"
| "getKind (OpaqueMetadata _) = Opaque"
| "getKind (TupleTypeMetadata _) = Tuple"
| "getKind (FunctionTypeMetadata _ _ _ _) = Function"
| "getKind (ExistentialTypeMetadata _ _) = Existential"
| "getKind (MetatypeMetadata _) = Metatype"
| "getKind (ObjCClassWrapperMetadata _) = ObjCClassWrapper"
| "getKind (ExistentialMetatypeMetadata _) = ExistentialMetatype"
| "getKind (ForeignClassMetadata _) = ForeignClass"
| "getKind (HeapLocalVariableMetadata _) = HeapLocalVariable"
| "getKind (HeapGenericLocalVariableMetadata _) = HeapGenericLocalVariable"
| "getKind (ErrorObjectMetadata _) = ErrorObject"

text \<open>\<^verbatim>\<open>ExistentialTypeMetadata::isClassBounded\<close>: the class representation is the one of
  the class-bounded existentials.\<close>

fun isClassBounded :: "Metadata \<Rightarrow> bool" where
  "isClassBounded (ExistentialTypeMetadata rep _) = (rep = RepClass)"
| "isClassBounded _ = False"

text \<open>\<^verbatim>\<open>_swift_getSuperclass\<close>.\<close>

fun swift_getSuperclass :: "Metadata \<Rightarrow> Metadata option" where
  "swift_getSuperclass (ClassMetadata _ super) = super"
| "swift_getSuperclass _ = None"

subsection \<open>The collaborators of the engine\<close>

type_synonym WitnessTable = nat

text \<open>
  The functions the file calls and does not define: the conformance lookup
  \<^verbatim>\<open>swift_conformsToProtocol\<close>, the ancestry check of foreign classes
  \<^verbatim>\<open>swift_dynamicCastForeignClassMetatype\<close>, and, of the value witnesses of a type,
  whether \<^verbatim>\<open>vw_projectBuffer\<close> answers the address of the buffer itself (the value is
  stored inline) or the address of an allocated box.
\<close>

record Runtime =
  swift_conformsToProtocol :: "Metadata \<Rightarrow> ProtocolDescriptor \<Rightarrow> WitnessTable option"
  swift_dynamicCastForeignClassMetatype :: "Metadata \<Rightarrow> Metadata \<Rightarrow> Metadata option"
  storedInline :: "Metadata \<Rightarrow> bool"

subsection \<open>Cast flags\<close>

datatype DynamicCastFlag = Unconditional | TakeOnSuccess | DestroyOnFailure

type_synonym DynamicCastFlags = "DynamicCastFlag set"

definition shouldDeallocateSource :: "bool \<Rightarrow> DynamicCastFlags \<Rightarrow> bool" where
  "shouldDeallocateSource castSucceeded flags =
     ((castSucceeded \<and> TakeOnSuccess \<in> flags) \<or> (\<not> castSucceeded \<and> DestroyOnFailure \<in> flags))"

subsection \<open>Casts between metatypes\<close>

text \<open>\<^verbatim>\<open>_dynamicCastClassMetatype\<close>: the loop
  \<^verbatim>\<open>do { if (sourceType == targetType) return sourceType; sourceType = super; } while (sourceType)\<close>.\<close>

fun dynamicCastClassMetatype :: "Metadata \<Rightarrow> Metadata \<Rightarrow> Metadata option" where
  "dynamicCastClassMetatype (ClassMetadata n super) targetType =
     (if ClassMetadata n super = targetType then Some (ClassMetadata n super)
      else (case super of
              None \<Rightarrow> None
            | Some sourceType \<Rightarrow> dynamicCastClassMetatype sourceType targetType))"
| "dynamicCastClassMetatype sourceType targetType =
     (if sourceType = targetType then Some sourceType else None)"

text \<open>The class an \<^verbatim>\<open>ObjCClassWrapperMetadata\<close> wraps (its field \<^verbatim>\<open>Class\<close>).\<close>

fun wrappedClass :: "Metadata \<Rightarrow> Metadata" where
  "wrappedClass (ObjCClassWrapperMetadata c) = c"
| "wrappedClass t = t"

definition isNull :: "'a option \<Rightarrow> bool" where
  "isNull p = (p = None)"

text \<open>\<^verbatim>\<open>swift_dynamicCastMetatype\<close>: \<^verbatim>\<open>None\<close> is the null pointer.\<close>

definition swift_dynamicCastMetatype :: "Runtime \<Rightarrow> Metadata \<Rightarrow> Metadata \<Rightarrow> Metadata option" where
  "swift_dynamicCastMetatype rt sourceType targetType =
     (let origSourceType = sourceType in
      if getKind targetType = ObjCClassWrapper \<or> getKind targetType = Class then
        (let targetType = wrappedClass targetType in
         if getKind sourceType = ObjCClassWrapper \<or> getKind sourceType = Class then
           (let sourceType = wrappedClass sourceType in
            if \<not> isNull (dynamicCastClassMetatype sourceType targetType)
            then Some origSourceType else None)
         else if getKind sourceType = ForeignClass then
           (if \<not> isNull (swift_dynamicCastForeignClassMetatype rt sourceType targetType)
            then Some origSourceType else None)
         else None)
      else if getKind targetType = ForeignClass then
        (if getKind sourceType \<in> {ObjCClassWrapper, Class, ForeignClass} then
           (let sourceType = wrappedClass sourceType in
            if \<not> isNull (swift_dynamicCastForeignClassMetatype rt sourceType targetType)
            then Some origSourceType else None)
         else None)
      else
        (if sourceType \<noteq> targetType then None else Some origSourceType))"

subsection \<open>Subclassing, in the words of the specification\<close>

text \<open>The superclass chain of a class descriptor, the descriptor first.\<close>

fun superclassChain :: "Metadata \<Rightarrow> Metadata list" where
  "superclassChain (ClassMetadata n None) = [ClassMetadata n None]"
| "superclassChain (ClassMetadata n (Some super)) =
     ClassMetadata n (Some super) # superclassChain super"
| "superclassChain t = [t]"

text \<open>A class is \<^emph>\<open>a subclass of or equal to\<close> another when the other is on its chain.\<close>

definition isSubclassOrEqual :: "Metadata \<Rightarrow> Metadata \<Rightarrow> bool" where
  "isSubclassOrEqual derived base = (base \<in> set (superclassChain derived))"

subsection \<open>Values, calls and results\<close>

text \<open>A heap object with its address and the class it was allocated with
  (\<^verbatim>\<open>_swift_getClassOfAllocated\<close>, \<^verbatim>\<open>swift_getObjectType\<close>, \<^verbatim>\<open>_swift_getClass\<close>).\<close>

datatype HeapObject = HeapObject (objectAddress: nat) (isa: Metadata)

text \<open>
  What an \<^verbatim>\<open>OpaqueValue *\<close> points to, as far as the casts look into it: a class
  reference; the three existential containers (a class existential with its reference, an
  opaque existential with the field \<^verbatim>\<open>Type\<close> and the value in its buffer, an error box
  with its type and value), each with the witness tables stored beside it; a metatype
  word; an existential metatype container; the two cases of an \<^verbatim>\<open>Optional\<close>; and the
  bits of any other value.
\<close>

datatype OpaqueValue =
    Reference HeapObject
  | ClassExistentialContainer HeapObject "WitnessTable list"
  | OpaqueExistentialContainer Metadata OpaqueValue "WitnessTable list"
  | SwiftErrorBox Metadata OpaqueValue "WitnessTable list"
  | MetatypeValue Metadata
  | ExistentialMetatypeContainer Metadata "WitnessTable list"
  | OptionalNone
  | OptionalSome OpaqueValue
  | Bits nat

text \<open>
  The calls a cast makes on its source and the stores it makes through \<^verbatim>\<open>dest\<close>:
  the value witnesses \<^verbatim>\<open>vw_destroy(src)\<close>, \<^verbatim>\<open>vw_initializeWithTake(dest, src)\<close>,
  \<^verbatim>\<open>vw_initializeWithCopy(dest, src)\<close>, \<^verbatim>\<open>vw_initializeBufferWithTake(&dest->Buffer, src)\<close>,
  \<^verbatim>\<open>vw_initializeBufferWithCopy(&dest->Buffer, src)\<close> and \<^verbatim>\<open>vw_deallocateBuffer\<close> of a source
  container, each with the type whose witness is called; the reference counting entry
  points; \<^verbatim>\<open>swift_allocError\<close> (type, witness, value, isTake);
  \<^verbatim>\<open>swift_storeEnumTagSinglePayload(dest, payloadType, case, 1)\<close>; and the plain stores
  into \<^verbatim>\<open>dest\<close>: of an object reference, of a witness table into slot \<open>i\<close>, of the field
  \<^verbatim>\<open>Type\<close>, of a metatype word, of an error box.
\<close>

datatype Event =
    Vw_destroy Metadata OpaqueValue
  | Vw_initializeWithTake Metadata OpaqueValue
  | Vw_initializeWithCopy Metadata OpaqueValue
  | Vw_initializeBufferWithTake Metadata OpaqueValue
  | Vw_initializeBufferWithCopy Metadata OpaqueValue
  | Vw_deallocateBuffer Metadata
  | Swift_retain HeapObject
  | Swift_unknownRetain HeapObject
  | Swift_unknownRelease HeapObject
  | Swift_allocError Metadata "WitnessTable option" OpaqueValue bool
  | Swift_storeEnumTagSinglePayload Metadata int
  | StoreObject HeapObject
  | StoreWitnessTable nat WitnessTable
  | StoreType Metadata
  | StoreMetatype Metadata
  | StoreErrorBox Metadata OpaqueValue

text \<open>
  A call that does not return: \<^verbatim>\<open>swift_dynamicCastFailure(sourceType, targetType)\<close>, which
  prints the names of both types and aborts; \<^verbatim>\<open>_failCorruptType\<close>; and the reading of a
  value through a pointer cast the value does not have the layout for (a failed
  \<^verbatim>\<open>cast<>\<close> assertion, undefined behaviour of the C code).
\<close>

datatype Abort = CastFailure Metadata Metadata | CorruptType Metadata | Undefined

type_synonym CastResult = "(Abort + bool) \<times> Event list"

definition withEvents :: "Event list \<Rightarrow> (Abort + 'a) \<times> Event list \<Rightarrow> (Abort + 'a) \<times> Event list" where
  "withEvents earlier r = (fst r, earlier @ snd r)"

text \<open>\<^verbatim>\<open>*reinterpret_cast<HeapObject **>(value)\<close>.\<close>

fun loadObject :: "OpaqueValue \<Rightarrow> HeapObject option" where
  "loadObject (Reference object) = Some object"
| "loadObject _ = None"

text \<open>\<^verbatim>\<open>*(const Metadata * const *) src\<close>.\<close>

fun loadMetadata :: "OpaqueValue \<Rightarrow> Metadata option" where
  "loadMetadata (MetatypeValue m) = Some m"
| "loadMetadata (ExistentialMetatypeContainer m _) = Some m"
| "loadMetadata _ = None"

text \<open>\<^verbatim>\<open>swift_getEnumCaseSinglePayload(src, payloadType, 1)\<close>: \<open>-1\<close> for the payload case,
  \<open>0\<close> for the one empty case.\<close>

fun swift_getEnumCaseSinglePayload :: "OpaqueValue \<Rightarrow> int option" where
  "swift_getEnumCaseSinglePayload OptionalNone = Some 0"
| "swift_getEnumCaseSinglePayload (OptionalSome _) = Some (- 1)"
| "swift_getEnumCaseSinglePayload _ = None"

text \<open>
  A single-payload enum is layout compatible with its payload: once
  \<^verbatim>\<open>checkDynamicCastFromOptional\<close> has answered the payload type, the same pointer
  \<^verbatim>\<open>src\<close> is read as a value of the payload type.
\<close>

fun payloadOf :: "Metadata \<Rightarrow> OpaqueValue \<Rightarrow> OpaqueValue" where
  "payloadOf (OptionalMetadata _) (OptionalSome v) = v"
| "payloadOf _ v = v"

subsection \<open>Failing and succeeding\<close>

text \<open>\<^verbatim>\<open>_fail\<close>.\<close>

definition fail ::
  "OpaqueValue \<Rightarrow> Metadata \<Rightarrow> Metadata \<Rightarrow> DynamicCastFlags \<Rightarrow> Metadata option \<Rightarrow> CastResult" where
  "fail srcValue srcType targetType flags srcDynamicType =
     (if Unconditional \<in> flags then
        (let srcTypeToReport = (case srcDynamicType of Some d \<Rightarrow> d | None \<Rightarrow> srcType)
         in (Inl (CastFailure srcTypeToReport targetType), []))
      else if DestroyOnFailure \<in> flags then (Inr False, [Vw_destroy srcType srcValue])
      else (Inr False, []))"

text \<open>\<^verbatim>\<open>_succeed\<close>.\<close>

definition succeed :: "OpaqueValue \<Rightarrow> Metadata \<Rightarrow> DynamicCastFlags \<Rightarrow> CastResult" where
  "succeed src srcType flags =
     (if TakeOnSuccess \<in> flags then (Inr True, [Vw_initializeWithTake srcType src])
      else (Inr True, [Vw_initializeWithCopy srcType src]))"

subsection \<open>Protocol conformance\<close>

text \<open>
  \<^verbatim>\<open>_conformsToProtocol\<close>.  The result is whether the type conforms and the witness table
  the C code stores through \<^verbatim>\<open>conformance\<close> (when that pointer is not null).  The
  parameter \<^verbatim>\<open>value\<close> is read in the Objective-C blocks only.
\<close>

definition conformsToProtocol ::
  "Runtime \<Rightarrow> Metadata \<Rightarrow> ProtocolDescriptor \<Rightarrow> Abort + (bool \<times> WitnessTable option)" where
  "conformsToProtocol rt type protocol =
     (if getSpecialProtocol protocol = AnyObject then
        (if getKind type \<in> {Class, ObjCClassWrapper, ForeignClass} then Inr (True, None)
         else if getKind type = Existential then Inr (isClassBounded type, None)
         else Inr (False, None))
      else if needsWitnessTable protocol then
        (case swift_conformsToProtocol rt type protocol of
           None \<Rightarrow> Inr (False, None)
         | Some witness \<Rightarrow> Inr (True, Some witness))
      else if getKind type = Class then Inr (False, None)
      else if getKind type = ObjCClassWrapper then Inr (False, None)
      else if getKind type = ForeignClass then Inl (CorruptType type)
      else Inr (False, None))"

text \<open>
  \<^verbatim>\<open>_conformsToProtocols\<close>.  \<open>slot\<close> is the position of the pointer \<^verbatim>\<open>conformances\<close> in the
  array it walks; the second component lists the stores \<^verbatim>\<open>*conformances = witness\<close> made
  before the function returns.
\<close>

fun conformsToProtocols ::
  "Runtime \<Rightarrow> Metadata \<Rightarrow> ProtocolDescriptor list \<Rightarrow> nat
     \<Rightarrow> (Abort + bool) \<times> (nat \<times> WitnessTable) list" where
  "conformsToProtocols rt type [] slot = (Inr True, [])"
| "conformsToProtocols rt type (protocol # protocols) slot =
     (case conformsToProtocol rt type protocol of
        Inl a \<Rightarrow> (Inl a, [])
      | Inr (conforms, witness) \<Rightarrow>
          if \<not> conforms then (Inr False, [])
          else
            (let stored = (case witness of None \<Rightarrow> [] | Some w \<Rightarrow> [(slot, w)]);
                 r = conformsToProtocols rt type protocols
                       (if needsWitnessTable protocol then Suc slot else slot)
             in (fst r, stored @ snd r)))"

definition storeWitnessTables :: "(nat \<times> WitnessTable) list \<Rightarrow> Event list" where
  "storeWitnessTables ws = map (\<lambda>(i, w). StoreWitnessTable i w) ws"

subsection \<open>Unwrapping an existential source\<close>

text \<open>\<^verbatim>\<open>_maybeDeallocateOpaqueExistential\<close>.\<close>

definition maybeDeallocateOpaqueExistential :: "OpaqueValue \<Rightarrow> bool \<Rightarrow> DynamicCastFlags \<Rightarrow> Event list" where
  "maybeDeallocateOpaqueExistential srcExistential castSucceeded flags =
     (if shouldDeallocateSource castSucceeded flags then
        (case srcExistential of
           OpaqueExistentialContainer type _ _ \<Rightarrow> [Vw_deallocateBuffer type]
         | _ \<Rightarrow> [])
      else [])"

text \<open>
  Modelled from the spec: the methods \<^verbatim>\<open>projectValue\<close>, \<^verbatim>\<open>getDynamicType\<close> and
  \<^verbatim>\<open>mayTakeValue\<close> of \<^verbatim>\<open>ExistentialTypeMetadata\<close>, which this file calls and does not
  define.  The specification: an inline or boxed container and an error box record the
  payload and its dynamic type; a box "permits taking" unless it is an error box
  ("error-boxes holding a possibly-shared box must never be taken, only copied").
  The projected payload comes with whether its address is the address of the container:
  the buffer is the first field of an opaque container, so a value stored inline has the
  address of the container, and the value of an error box lies in the box.
\<close>

fun projectValue :: "Runtime \<Rightarrow> ExistentialTypeRepresentation \<Rightarrow> OpaqueValue \<Rightarrow> (bool \<times> OpaqueValue) option" where
  "projectValue rt RepOpaque (OpaqueExistentialContainer type v _) = Some (storedInline rt type, v)"
| "projectValue rt RepErrorProtocol (SwiftErrorBox type v _) = Some (False, v)"
| "projectValue rt _ _ = None"

fun getDynamicType :: "ExistentialTypeRepresentation \<Rightarrow> OpaqueValue \<Rightarrow> Metadata option" where
  "getDynamicType RepOpaque (OpaqueExistentialContainer type _ _) = Some type"
| "getDynamicType RepErrorProtocol (SwiftErrorBox type _ _) = Some type"
| "getDynamicType _ _ = None"

fun mayTakeValue :: "ExistentialTypeRepresentation \<Rightarrow> OpaqueValue \<Rightarrow> bool" where
  "mayTakeValue RepErrorProtocol _ = False"
| "mayTakeValue _ _ = True"

text \<open>
  \<^verbatim>\<open>findDynamicValueAndType\<close>.  The C function answers through the references
  \<^verbatim>\<open>outValue\<close>, \<^verbatim>\<open>outType\<close> and \<^verbatim>\<open>inoutCanTake\<close>; the model answers the three, and with
  \<^verbatim>\<open>outValue\<close> whether that pointer is the pointer the caller started from (\<open>atSrc\<close>:
  the address of \<^verbatim>\<open>value\<close> is the caller's, which the field \<^verbatim>\<open>Value\<close> of a class
  existential and a value stored inline keep).
\<close>

function findDynamicValueAndType ::
  "Runtime \<Rightarrow> bool \<Rightarrow> OpaqueValue \<Rightarrow> Metadata \<Rightarrow> bool
     \<Rightarrow> Abort + (bool \<times> OpaqueValue \<times> Metadata \<times> bool)" where
  "findDynamicValueAndType rt atSrc value type inoutCanTake =
     (if getKind type \<in> {Class, ObjCClassWrapper, ForeignClass} then
        (case loadObject value of
           None \<Rightarrow> Inl Undefined
         | Some object \<Rightarrow> Inr (atSrc, value, isa object, inoutCanTake))
      else
      (case type of
         ExistentialTypeMetadata RepClass _ \<Rightarrow>
           (case value of
              ClassExistentialContainer object _ \<Rightarrow>
                Inr (atSrc, Reference object, isa object, inoutCanTake)
            | _ \<Rightarrow> Inl Undefined)
       | ExistentialTypeMetadata representation _ \<Rightarrow>
           (case (projectValue rt representation value, getDynamicType representation value) of
              (Some (same, innerValue), Some innerType) \<Rightarrow>
                findDynamicValueAndType rt (atSrc \<and> same) innerValue innerType
                  (inoutCanTake \<and> mayTakeValue representation value)
            | _ \<Rightarrow> Inl Undefined)
       | MetatypeMetadata _ \<Rightarrow>
           (case loadMetadata value of
              None \<Rightarrow> Inl Undefined
            | Some storedType \<Rightarrow> Inr (atSrc, value, MetatypeMetadata storedType, inoutCanTake))
       | ExistentialMetatypeMetadata _ \<Rightarrow>
           (case loadMetadata value of
              None \<Rightarrow> Inl Undefined
            | Some storedType \<Rightarrow> Inr (atSrc, value, MetatypeMetadata storedType, inoutCanTake))
       | _ \<Rightarrow> Inr (atSrc, value, type, inoutCanTake)))"
  by pat_completeness auto
termination
  by (relation "measure (\<lambda>(rt, atSrc, v, type, inoutCanTake). size v)")
     (auto elim: projectValue.elims [OF sym])

text \<open>\<^verbatim>\<open>swift_getDynamicType\<close>.\<close>

definition swift_getDynamicType :: "Runtime \<Rightarrow> OpaqueValue \<Rightarrow> Metadata \<Rightarrow> Abort + Metadata" where
  "swift_getDynamicType rt value self =
     (case findDynamicValueAndType rt True value self False of
        Inl a \<Rightarrow> Inl a
      | Inr (_, outValue, outType, canTake) \<Rightarrow> Inr outType)"

text \<open>\<^verbatim>\<open>deallocateDynamicValue\<close>.\<close>

fun deallocateDynamicValue :: "OpaqueValue \<Rightarrow> Metadata \<Rightarrow> Event list" where
  "deallocateDynamicValue (OpaqueExistentialContainer existentialType existentialValue ws)
     (ExistentialTypeMetadata RepOpaque protocols) =
       deallocateDynamicValue existentialValue existentialType @ [Vw_deallocateBuffer existentialType]"
| "deallocateDynamicValue value type = []"

subsection \<open>Casts to an existential type\<close>

text \<open>
  \<^verbatim>\<open>_dynamicCastToExistential\<close>.  The witness tables are stored straight into the
  destination container by \<^verbatim>\<open>_conformsToProtocols\<close>, except for the error
  representation, which collects the one witness in the local \<^verbatim>\<open>errorWitness\<close> (left
  uninitialised, \<open>None\<close>, when no store reaches its first slot).
\<close>

definition dynamicCastToExistential ::
  "Runtime \<Rightarrow> OpaqueValue \<Rightarrow> Metadata \<Rightarrow> Metadata \<Rightarrow> DynamicCastFlags \<Rightarrow> CastResult" where
  "dynamicCastToExistential rt src srcType targetType flags =
     (case targetType of
        ExistentialTypeMetadata representation protocols \<Rightarrow>
          (case findDynamicValueAndType rt True src srcType True of
             Inl a \<Rightarrow> (Inl a, [])
           | Inr (atSrc, srcDynamicValue, srcDynamicType, canTake) \<Rightarrow>
              (let maybeDeallocateSourceAfterSuccess =
                     (if shouldDeallocateSource True flags then
                        (if canTake \<and> \<not> atSrc then deallocateDynamicValue src srcType
                         else if \<not> canTake then [Vw_destroy srcType src]
                         else [])
                      else []);
                   conformances = conformsToProtocols rt srcDynamicType protocols 0
               in
               case representation of
                 RepClass \<Rightarrow>
                   if getKind srcDynamicType \<in> {ExistentialMetatype, Metatype} then
                     fail src srcType targetType flags None
                   else if getKind srcDynamicType \<in>
                        {Function, HeapLocalVariable, HeapGenericLocalVariable, ErrorObject,
                         Opaque, Tuple} then
                     fail src srcType targetType flags None
                   else
                     (case fst conformances of
                        Inl a \<Rightarrow> (Inl a, storeWitnessTables (snd conformances))
                      | Inr False \<Rightarrow>
                          withEvents (storeWitnessTables (snd conformances))
                            (fail src srcType targetType flags (Some srcDynamicType))
                      | Inr True \<Rightarrow>
                          (case loadObject srcDynamicValue of
                             None \<Rightarrow> (Inl Undefined, storeWitnessTables (snd conformances))
                           | Some object \<Rightarrow>
                               (Inr True,
                                storeWitnessTables (snd conformances) @ [StoreObject object] @
                                (if \<not> canTake \<or> TakeOnSuccess \<notin> flags then [Swift_retain object]
                                 else []) @
                                maybeDeallocateSourceAfterSuccess)))
               | RepOpaque \<Rightarrow>
                   (case fst conformances of
                      Inl a \<Rightarrow> (Inl a, storeWitnessTables (snd conformances))
                    | Inr False \<Rightarrow>
                        withEvents (storeWitnessTables (snd conformances))
                          (fail src srcType targetType flags (Some srcDynamicType))
                    | Inr True \<Rightarrow>
                        (Inr True,
                         storeWitnessTables (snd conformances) @ [StoreType srcDynamicType] @
                         (if canTake \<and> TakeOnSuccess \<in> flags
                          then [Vw_initializeBufferWithTake srcDynamicType srcDynamicValue]
                          else [Vw_initializeBufferWithCopy srcDynamicType srcDynamicValue]) @
                         maybeDeallocateSourceAfterSuccess))
               | RepErrorProtocol \<Rightarrow>
                   (case fst conformances of
                      Inl a \<Rightarrow> (Inl a, [])
                    | Inr False \<Rightarrow> fail src srcType targetType flags (Some srcDynamicType)
                    | Inr True \<Rightarrow>
                        (let errorWitness = map_of (rev (snd conformances)) 0 in
                         (Inr True,
                          [Swift_allocError srcDynamicType errorWitness srcDynamicValue
                             (canTake \<and> TakeOnSuccess \<in> flags),
                           StoreErrorBox srcDynamicType srcDynamicValue] @
                          maybeDeallocateSourceAfterSuccess)))))
      | _ \<Rightarrow> (Inl Undefined, []))"

subsection \<open>Casts of a class reference\<close>

text \<open>\<^verbatim>\<open>swift_dynamicCastClass\<close>: \<open>None\<close> is the null pointer.\<close>

definition swift_dynamicCastClass :: "HeapObject \<Rightarrow> Metadata \<Rightarrow> HeapObject option" where
  "swift_dynamicCastClass object targetType =
     (if \<not> isNull (dynamicCastClassMetatype (isa object) targetType) then Some object else None)"

text \<open>\<^verbatim>\<open>swift_dynamicCastClassUnconditional\<close>.\<close>

definition swift_dynamicCastClassUnconditional :: "HeapObject \<Rightarrow> Metadata \<Rightarrow> Abort + HeapObject" where
  "swift_dynamicCastClassUnconditional object targetType =
     (case swift_dynamicCastClass object targetType of
        Some v \<Rightarrow> Inr v
      | None \<Rightarrow> Inl (CastFailure (isa object) targetType))"

text \<open>\<^verbatim>\<open>_dynamicCastUnknownClassToExistential\<close>: the loop over the protocols of the target.\<close>

fun dynamicCastUnknownClassToExistential :: "HeapObject \<Rightarrow> ProtocolDescriptor list \<Rightarrow> HeapObject option" where
  "dynamicCastUnknownClassToExistential object [] = Some object"
| "dynamicCastUnknownClassToExistential object (protocol # protocols) =
     (case getDispatchStrategy protocol of
        DispatchSwift \<Rightarrow> None
      | DispatchObjC \<Rightarrow> None
      | DispatchEmpty \<Rightarrow> dynamicCastUnknownClassToExistential object protocols)"

text \<open>\<^verbatim>\<open>swift_dynamicCastUnknownClass\<close>.\<close>

definition swift_dynamicCastUnknownClass :: "HeapObject \<Rightarrow> Metadata \<Rightarrow> Abort + HeapObject option" where
  "swift_dynamicCastUnknownClass object targetType =
     (case targetType of
        ClassMetadata _ _ \<Rightarrow> Inr (swift_dynamicCastClass object targetType)
      | ObjCClassWrapperMetadata _ \<Rightarrow> Inl (CorruptType targetType)
      | ForeignClassMetadata _ \<Rightarrow> Inl (CorruptType targetType)
      | ExistentialTypeMetadata _ protocols \<Rightarrow>
          Inr (dynamicCastUnknownClassToExistential object protocols)
      | _ \<Rightarrow> Inr None)"

text \<open>\<^verbatim>\<open>swift_dynamicCastUnknownClassUnconditional\<close>.\<close>

definition swift_dynamicCastUnknownClassUnconditional :: "HeapObject \<Rightarrow> Metadata \<Rightarrow> Abort + HeapObject" where
  "swift_dynamicCastUnknownClassUnconditional object targetType =
     (case targetType of
        ClassMetadata _ _ \<Rightarrow> swift_dynamicCastClassUnconditional object targetType
      | ObjCClassWrapperMetadata _ \<Rightarrow> Inl (CorruptType targetType)
      | ForeignClassMetadata _ \<Rightarrow> Inl (CorruptType targetType)
      | ExistentialTypeMetadata _ protocols \<Rightarrow>
          (case dynamicCastUnknownClassToExistential object protocols of
             Some result \<Rightarrow> Inr result
           | None \<Rightarrow> Inl (CastFailure (isa object) targetType))
      | _ \<Rightarrow> Inl (CastFailure (isa object) targetType))"

text \<open>\<^verbatim>\<open>_dynamicCastUnknownClassIndirect\<close>.\<close>

definition dynamicCastUnknownClassIndirect ::
  "HeapObject \<Rightarrow> Metadata \<Rightarrow> DynamicCastFlags \<Rightarrow> CastResult" where
  "dynamicCastUnknownClassIndirect object targetType flags =
     (if Unconditional \<in> flags then
        (case swift_dynamicCastUnknownClassUnconditional object targetType of
           Inl a \<Rightarrow> (Inl a, [])
         | Inr result \<Rightarrow>
             (Inr True,
              [StoreObject result] @
              (if TakeOnSuccess \<notin> flags then [Swift_unknownRetain result] else [])))
      else
        (case swift_dynamicCastUnknownClass object targetType of
           Inl a \<Rightarrow> (Inl a, [])
         | Inr None \<Rightarrow>
             (Inr False, if DestroyOnFailure \<in> flags then [Swift_unknownRelease object] else [])
         | Inr (Some result) \<Rightarrow>
             (Inr True,
              [StoreObject result] @
              (if TakeOnSuccess \<notin> flags then [Swift_unknownRetain result] else []))))"

subsection \<open>Casts to a metatype\<close>

text \<open>Modelled from the spec: \<^verbatim>\<open>swift_dynamicCastForeignClassMetatypeUnconditional\<close>, which
  this file calls and does not define: the ancestry check of foreign classes, aborting
  with the diagnostic of a failed cast where the conditional form answers null.\<close>

definition swift_dynamicCastForeignClassMetatypeUnconditional ::
  "Runtime \<Rightarrow> Metadata \<Rightarrow> Metadata \<Rightarrow> Abort + Metadata" where
  "swift_dynamicCastForeignClassMetatypeUnconditional rt sourceType targetType =
     (case swift_dynamicCastForeignClassMetatype rt sourceType targetType of
        Some m \<Rightarrow> Inr m
      | None \<Rightarrow> Inl (CastFailure sourceType targetType))"

text \<open>\<^verbatim>\<open>swift_dynamicCastMetatypeUnconditional\<close>.\<close>

definition swift_dynamicCastMetatypeUnconditional ::
  "Runtime \<Rightarrow> Metadata \<Rightarrow> Metadata \<Rightarrow> Abort + Metadata" where
  "swift_dynamicCastMetatypeUnconditional rt sourceType targetType =
     (let origSourceType = sourceType in
      if getKind targetType = ObjCClassWrapper \<or> getKind targetType = Class then
        (let targetType = wrappedClass targetType in
         if getKind sourceType = ObjCClassWrapper \<or> getKind sourceType = Class then
           (let sourceType = wrappedClass sourceType in
            if isNull (dynamicCastClassMetatype sourceType targetType)
            then Inl (CastFailure sourceType targetType) else Inr origSourceType)
         else if getKind sourceType = ForeignClass then
           (case swift_dynamicCastForeignClassMetatypeUnconditional rt sourceType targetType of
              Inl a \<Rightarrow> Inl a
            | Inr _ \<Rightarrow> Inr origSourceType)
         else Inl (CastFailure sourceType targetType))
      else if getKind targetType = ForeignClass then
        (if getKind sourceType \<in> {ObjCClassWrapper, Class, ForeignClass} then
           (let sourceType = wrappedClass sourceType in
            case swift_dynamicCastForeignClassMetatypeUnconditional rt sourceType targetType of
              Inl a \<Rightarrow> Inl a
            | Inr _ \<Rightarrow> Inr origSourceType)
         else Inl (CastFailure sourceType targetType))
      else
        (if sourceType \<noteq> targetType then Inl (CastFailure sourceType targetType)
         else Inr origSourceType))"

text \<open>\<^verbatim>\<open>_dynamicCastMetatypeToMetatype\<close>.\<close>

definition dynamicCastMetatypeToMetatype ::
  "Runtime \<Rightarrow> Metadata \<Rightarrow> Metadata \<Rightarrow> DynamicCastFlags \<Rightarrow> CastResult" where
  "dynamicCastMetatypeToMetatype rt metatype targetType flags =
     (case targetType of
        MetatypeMetadata InstanceType \<Rightarrow>
          (if Unconditional \<in> flags then
             (case swift_dynamicCastMetatypeUnconditional rt metatype InstanceType of
                Inl a \<Rightarrow> (Inl a, [])
              | Inr result \<Rightarrow> (Inr True, [StoreMetatype result]))
           else
             (case swift_dynamicCastMetatype rt metatype InstanceType of
                None \<Rightarrow> (Inr False, [])
              | Some result \<Rightarrow> (Inr True, [StoreMetatype result])))
      | _ \<Rightarrow> (Inl Undefined, []))"

text \<open>\<^verbatim>\<open>_getUnknownClassAsMetatype\<close>: class values are never metatypes in the native runtime.\<close>

definition getUnknownClassAsMetatype :: "HeapObject \<Rightarrow> Metadata option" where
  "getUnknownClassAsMetatype object = None"

text \<open>\<^verbatim>\<open>_dynamicCastUnknownClassToMetatype\<close>.\<close>

definition dynamicCastUnknownClassToMetatype ::
  "Runtime \<Rightarrow> HeapObject \<Rightarrow> Metadata \<Rightarrow> DynamicCastFlags \<Rightarrow> CastResult" where
  "dynamicCastUnknownClassToMetatype rt object targetType flags =
     (case getUnknownClassAsMetatype object of
        Some metatype \<Rightarrow> dynamicCastMetatypeToMetatype rt metatype targetType flags
      | None \<Rightarrow>
          if Unconditional \<in> flags then (Inl (CastFailure (isa object) targetType), [])
          else if DestroyOnFailure \<in> flags then (Inr False, [Swift_unknownRelease object])
          else (Inr False, []))"

text \<open>\<^verbatim>\<open>_dynamicCastToMetatype\<close>.\<close>

fun dynamicCastToMetatype ::
  "Runtime \<Rightarrow> OpaqueValue \<Rightarrow> Metadata \<Rightarrow> Metadata \<Rightarrow> DynamicCastFlags \<Rightarrow> CastResult" where
  "dynamicCastToMetatype rt src srcType targetType flags =
     (if getKind srcType \<in> {Metatype, ExistentialMetatype} then
        (case loadMetadata src of
           None \<Rightarrow> (Inl Undefined, [])
         | Some srcMetatype \<Rightarrow> dynamicCastMetatypeToMetatype rt srcMetatype targetType flags)
      else if getKind srcType \<in> {Class, ObjCClassWrapper, ForeignClass} then
        (case loadObject src of
           None \<Rightarrow> (Inl Undefined, [])
         | Some object \<Rightarrow> dynamicCastUnknownClassToMetatype rt object targetType flags)
      else
      (case srcType of
         ExistentialTypeMetadata RepClass _ \<Rightarrow>
           (case src of
              ClassExistentialContainer object _ \<Rightarrow>
                dynamicCastUnknownClassToMetatype rt object targetType flags
            | _ \<Rightarrow> (Inl Undefined, []))
       | ExistentialTypeMetadata RepOpaque _ \<Rightarrow>
           (case src of
              OpaqueExistentialContainer srcValueType srcValue _ \<Rightarrow>
                (case dynamicCastToMetatype rt srcValue srcValueType targetType flags of
                   (Inl a, ev) \<Rightarrow> (Inl a, ev)
                 | (Inr result, ev) \<Rightarrow>
                     (Inr result,
                      ev @ (if \<not> storedInline rt srcValueType
                            then maybeDeallocateOpaqueExistential src result flags else [])))
            | _ \<Rightarrow> (Inl Undefined, []))
       | ExistentialTypeMetadata RepErrorProtocol _ \<Rightarrow>
           (case src of
              SwiftErrorBox srcValueType srcValue _ \<Rightarrow>
                (let subFlags = flags - {TakeOnSuccess, DestroyOnFailure} in
                 case dynamicCastToMetatype rt srcValue srcValueType targetType subFlags of
                   (Inl a, ev) \<Rightarrow> (Inl a, ev)
                 | (Inr result, ev) \<Rightarrow>
                     (Inr result,
                      ev @ (if shouldDeallocateSource result flags
                            then [Vw_destroy srcType src] else [])))
            | _ \<Rightarrow> (Inl Undefined, []))
       | _ \<Rightarrow> fail src srcType targetType flags None))"

subsection \<open>Casts to an existential metatype\<close>

text \<open>
  The loop of \<^verbatim>\<open>_dynamicCastMetatypeToExistentialMetatype\<close> over the protocols of the
  instance type.  \<^verbatim>\<open>conformance\<close> is null when \<^verbatim>\<open>writeDestMetatype\<close> is false, and then
  nothing is stored; otherwise it walks the witness tables of \<^verbatim>\<open>dest\<close> from \<open>slot\<close>.
\<close>

fun existentialMetatypeConformances ::
  "Runtime \<Rightarrow> Metadata \<Rightarrow> Metadata \<Rightarrow> ProtocolDescriptor list \<Rightarrow> DynamicCastFlags \<Rightarrow> bool \<Rightarrow> nat
     \<Rightarrow> CastResult" where
  "existentialMetatypeConformances rt srcMetatype targetType [] flags writeDestMetatype slot =
     (Inr True, [])"
| "existentialMetatypeConformances rt srcMetatype targetType (protocol # protocols) flags
     writeDestMetatype slot =
     (case conformsToProtocol rt srcMetatype protocol of
        Inl a \<Rightarrow> (Inl a, [])
      | Inr (conforms, witness) \<Rightarrow>
          if \<not> conforms then
            (if Unconditional \<in> flags then (Inl (CastFailure srcMetatype targetType), [])
             else (Inr False, []))
          else
            withEvents
              (case witness of
                 None \<Rightarrow> []
               | Some w \<Rightarrow> if writeDestMetatype then [StoreWitnessTable slot w] else [])
              (existentialMetatypeConformances rt srcMetatype targetType protocols flags
                 writeDestMetatype
                 (if writeDestMetatype \<and> needsWitnessTable protocol then Suc slot else slot)))"

text \<open>\<^verbatim>\<open>_dynamicCastMetatypeToExistentialMetatype\<close>.\<close>

fun dynamicCastMetatypeToExistentialMetatype ::
  "Runtime \<Rightarrow> Metadata \<Rightarrow> Metadata \<Rightarrow> DynamicCastFlags \<Rightarrow> bool \<Rightarrow> CastResult" where
  "dynamicCastMetatypeToExistentialMetatype rt srcMetatype
     (ExistentialMetatypeMetadata (ExistentialTypeMetadata representation protocols))
     flags writeDestMetatype =
     (case existentialMetatypeConformances rt srcMetatype
             (ExistentialMetatypeMetadata (ExistentialTypeMetadata representation protocols))
             protocols flags writeDestMetatype 0 of
        (Inr True, ev) \<Rightarrow>
          (Inr True, ev @ (if writeDestMetatype then [StoreMetatype srcMetatype] else []))
      | r \<Rightarrow> r)"
| "dynamicCastMetatypeToExistentialMetatype rt srcMetatype
     (ExistentialMetatypeMetadata (ExistentialMetatypeMetadata targetInstanceInstanceType))
     flags writeDestMetatype =
     (case srcMetatype of
        MetatypeMetadata srcInstanceType \<Rightarrow>
          withEvents (if writeDestMetatype then [StoreMetatype srcMetatype] else [])
            (dynamicCastMetatypeToExistentialMetatype rt srcInstanceType
               (ExistentialMetatypeMetadata targetInstanceInstanceType) flags False)
      | _ \<Rightarrow>
          if Unconditional \<in> flags then
            (Inl (CastFailure srcMetatype
                    (ExistentialMetatypeMetadata (ExistentialMetatypeMetadata targetInstanceInstanceType))),
             [])
          else (Inr False, []))"
| "dynamicCastMetatypeToExistentialMetatype rt srcMetatype targetType flags writeDestMetatype =
     (Inl Undefined, [])"

text \<open>\<^verbatim>\<open>_dynamicCastUnknownClassToExistentialMetatype\<close>.\<close>

definition dynamicCastUnknownClassToExistentialMetatype ::
  "Runtime \<Rightarrow> HeapObject \<Rightarrow> Metadata \<Rightarrow> DynamicCastFlags \<Rightarrow> CastResult" where
  "dynamicCastUnknownClassToExistentialMetatype rt object targetType flags =
     (case getUnknownClassAsMetatype object of
        Some metatype \<Rightarrow> dynamicCastMetatypeToExistentialMetatype rt metatype targetType flags True
      | None \<Rightarrow>
          if Unconditional \<in> flags then (Inl (CastFailure (isa object) targetType), [])
          else if DestroyOnFailure \<in> flags then (Inr False, [Swift_unknownRelease object])
          else (Inr False, []))"

text \<open>\<^verbatim>\<open>_dynamicCastToExistentialMetatype\<close>.\<close>

fun dynamicCastToExistentialMetatype ::
  "Runtime \<Rightarrow> OpaqueValue \<Rightarrow> Metadata \<Rightarrow> Metadata \<Rightarrow> DynamicCastFlags \<Rightarrow> CastResult" where
  "dynamicCastToExistentialMetatype rt src srcType targetType flags =
     (if getKind srcType \<in> {Metatype, ExistentialMetatype} then
        (case loadMetadata src of
           None \<Rightarrow> (Inl Undefined, [])
         | Some srcMetatype \<Rightarrow>
             dynamicCastMetatypeToExistentialMetatype rt srcMetatype targetType flags True)
      else if getKind srcType \<in> {Class, ObjCClassWrapper, ForeignClass} then
        (case loadObject src of
           None \<Rightarrow> (Inl Undefined, [])
         | Some object \<Rightarrow> dynamicCastUnknownClassToExistentialMetatype rt object targetType flags)
      else
      (case srcType of
         ExistentialTypeMetadata RepClass _ \<Rightarrow>
           (case src of
              ClassExistentialContainer object _ \<Rightarrow>
                dynamicCastUnknownClassToExistentialMetatype rt object targetType flags
            | _ \<Rightarrow> (Inl Undefined, []))
       | ExistentialTypeMetadata RepOpaque _ \<Rightarrow>
           (case src of
              OpaqueExistentialContainer srcValueType srcValue _ \<Rightarrow>
                (case dynamicCastToExistentialMetatype rt srcValue srcValueType targetType flags of
                   (Inl a, ev) \<Rightarrow> (Inl a, ev)
                 | (Inr result, ev) \<Rightarrow>
                     (Inr result,
                      ev @ (if \<not> storedInline rt srcValueType
                            then maybeDeallocateOpaqueExistential src result flags else [])))
            | _ \<Rightarrow> (Inl Undefined, []))
       | ExistentialTypeMetadata RepErrorProtocol _ \<Rightarrow>
           (case src of
              SwiftErrorBox srcValueType srcValue _ \<Rightarrow>
                (let subFlags = flags - {TakeOnSuccess, DestroyOnFailure} in
                 case dynamicCastToExistentialMetatype rt srcValue srcValueType targetType subFlags of
                   (Inl a, ev) \<Rightarrow> (Inl a, ev)
                 | (Inr result, ev) \<Rightarrow>
                     (Inr result,
                      ev @ (if shouldDeallocateSource result flags
                            then [Vw_destroy srcType src] else [])))
            | _ \<Rightarrow> (Inl Undefined, []))
       | _ \<Rightarrow> fail src srcType targetType flags None))"

subsection \<open>Unwrapping an Optional source\<close>

text \<open>The struct \<^verbatim>\<open>OptionalCastResult\<close> with its fields \<^verbatim>\<open>success\<close> and \<^verbatim>\<open>payloadType\<close>.\<close>

datatype OptionalCastResult =
  OptionalCastResult (resultSuccess: bool) (resultPayloadType: "Metadata option")

text \<open>\<^verbatim>\<open>checkDynamicCastFromOptional\<close>.\<close>

definition checkDynamicCastFromOptional ::
  "Runtime \<Rightarrow> OpaqueValue \<Rightarrow> Metadata \<Rightarrow> Metadata \<Rightarrow> DynamicCastFlags
     \<Rightarrow> (Abort + OptionalCastResult) \<times> Event list" where
  "checkDynamicCastFromOptional rt src srcType targetType flags =
     (case srcType of
        OptionalMetadata payloadType \<Rightarrow>
          (let inspectCase =
                 (case swift_getEnumCaseSinglePayload src of
                    None \<Rightarrow> (Inl Undefined, [])
                  | Some enumCase \<Rightarrow>
                      if enumCase \<noteq> - 1 then
                        (if getKind targetType \<noteq> Optional then
                           (case fail src srcType targetType flags None of
                              (Inl a, ev) \<Rightarrow> (Inl a, ev)
                            | (Inr _, ev) \<Rightarrow> (Inr (OptionalCastResult False None), ev))
                         else
                           (Inr (OptionalCastResult True None),
                            Swift_storeEnumTagSinglePayload payloadType enumCase #
                            snd (succeed src srcType flags)))
                      else (Inr (OptionalCastResult False (Some payloadType)), []))
           in
           if getKind targetType = Existential then
             (let checkCastFlags = flags - {Unconditional, DestroyOnFailure} in
              case dynamicCastToExistential rt src srcType targetType checkCastFlags of
                (Inl a, ev) \<Rightarrow> (Inl a, ev)
              | (Inr True, ev) \<Rightarrow> (Inr (OptionalCastResult True None), ev)
              | (Inr False, ev) \<Rightarrow> withEvents ev inspectCase)
           else inspectCase)
      | _ \<Rightarrow> (Inr (OptionalCastResult False (Some srcType)), []))"

subsection \<open>The cast to an arbitrary type\<close>

text \<open>The switch over the representation of the source in \<^verbatim>\<open>_dynamicCastFromExistential\<close>:
  \<^verbatim>\<open>srcValue\<close>, \<^verbatim>\<open>srcCapturedType\<close>, \<^verbatim>\<open>isOutOfLine\<close> and \<^verbatim>\<open>canTake\<close>.\<close>

fun capturedValue ::
  "Runtime \<Rightarrow> ExistentialTypeRepresentation \<Rightarrow> OpaqueValue
     \<Rightarrow> (OpaqueValue \<times> Metadata \<times> bool \<times> bool) option" where
  "capturedValue rt RepClass (ClassExistentialContainer object _) =
     Some (Reference object, isa object, False, True)"
| "capturedValue rt RepOpaque (OpaqueExistentialContainer srcCapturedType srcValue _) =
     Some (srcValue, srcCapturedType, \<not> storedInline rt srcCapturedType, True)"
| "capturedValue rt RepErrorProtocol (SwiftErrorBox srcCapturedType srcValue _) =
     Some (srcValue, srcCapturedType, True, False)"
| "capturedValue rt _ _ = None"

text \<open>The number of containers around the innermost value: each recursive call of the
  cast on a captured value goes one container down.\<close>

fun containerDepth :: "OpaqueValue \<Rightarrow> nat" where
  "containerDepth (ClassExistentialContainer _ _) = 1"
| "containerDepth (OpaqueExistentialContainer _ v _) = Suc (containerDepth v)"
| "containerDepth (SwiftErrorBox _ v _) = Suc (containerDepth v)"
| "containerDepth (OptionalSome v) = Suc (containerDepth v)"
| "containerDepth _ = 0"

text \<open>
  \<^verbatim>\<open>swift_dynamicCast\<close>, with \<^verbatim>\<open>_dynamicCastFromExistential\<close>,
  \<^verbatim>\<open>_dynamicCastToUnknownClassFromExistential\<close> and \<^verbatim>\<open>_dynamicCastToFunction\<close>, which call
  it back.
\<close>

function swift_dynamicCast ::
    "Runtime \<Rightarrow> OpaqueValue \<Rightarrow> Metadata \<Rightarrow> Metadata \<Rightarrow> DynamicCastFlags \<Rightarrow> CastResult"
  and dynamicCastFromExistential ::
    "Runtime \<Rightarrow> OpaqueValue \<Rightarrow> Metadata \<Rightarrow> Metadata \<Rightarrow> DynamicCastFlags \<Rightarrow> CastResult"
  and dynamicCastToUnknownClassFromExistential ::
    "Runtime \<Rightarrow> OpaqueValue \<Rightarrow> Metadata \<Rightarrow> Metadata \<Rightarrow> DynamicCastFlags \<Rightarrow> CastResult"
  and dynamicCastToFunction ::
    "Runtime \<Rightarrow> OpaqueValue \<Rightarrow> Metadata \<Rightarrow> Metadata \<Rightarrow> DynamicCastFlags \<Rightarrow> CastResult"
where
  "swift_dynamicCast rt src srcType0 targetType flags =
     (case checkDynamicCastFromOptional rt src srcType0 targetType flags of
        (Inl a, ev) \<Rightarrow> (Inl a, ev)
      | (Inr unwrapResult, ev) \<Rightarrow>
        (case resultPayloadType unwrapResult of
           None \<Rightarrow> (Inr (resultSuccess unwrapResult), ev)
         | Some srcType \<Rightarrow>
           withEvents ev
            (let src = payloadOf srcType0 src in
             case targetType of
               OptionalMetadata payloadType \<Rightarrow>
                 if getKind srcType = Existential then
                   dynamicCastFromExistential rt src srcType targetType flags
                 else
                   (case swift_dynamicCast rt src srcType payloadType flags of
                      (Inr True, ev') \<Rightarrow>
                        (Inr True, ev' @ [Swift_storeEnumTagSinglePayload payloadType (- 1)])
                    | r \<Rightarrow> r)
             | ExistentialTypeMetadata _ _ \<Rightarrow>
                 dynamicCastToExistential rt src srcType targetType flags
             | MetatypeMetadata _ \<Rightarrow>
                 dynamicCastToMetatype rt src srcType targetType flags
             | ExistentialMetatypeMetadata _ \<Rightarrow>
                 dynamicCastToExistentialMetatype rt src srcType targetType flags
             | FunctionTypeMetadata _ _ _ _ \<Rightarrow>
                 dynamicCastToFunction rt src srcType targetType flags
             | _ \<Rightarrow>
                 if getKind targetType \<in> {Class, ObjCClassWrapper, ForeignClass} then
                   (if getKind srcType \<in> {Class, ObjCClassWrapper, ForeignClass} then
                      (case loadObject src of
                         None \<Rightarrow> (Inl Undefined, [])
                       | Some object \<Rightarrow> dynamicCastUnknownClassIndirect object targetType flags)
                    else if getKind srcType = Existential then
                      dynamicCastToUnknownClassFromExistential rt src srcType targetType flags
                    else fail src srcType targetType flags None)
                 else
                   (if srcType = targetType then succeed src srcType flags
                    else if getKind srcType = Existential then
                      dynamicCastFromExistential rt src srcType targetType flags
                    else fail src srcType targetType flags None))))"
| "dynamicCastFromExistential rt src srcType targetType flags =
     (case srcType of
        ExistentialTypeMetadata representation _ \<Rightarrow>
          (case capturedValue rt representation src of
             None \<Rightarrow> (Inl Undefined, [])
           | Some (srcValue, srcCapturedType, isOutOfLine, canTake) \<Rightarrow>
               (let subFlags =
                      (if \<not> canTake then flags - {DestroyOnFailure, TakeOnSuccess} else flags)
                in
                case swift_dynamicCast rt srcValue srcCapturedType targetType subFlags of
                  (Inl a, ev) \<Rightarrow> (Inl a, ev)
                | (Inr result, ev) \<Rightarrow>
                    (Inr result,
                     ev @
                     (if canTake \<and> result \<and> isOutOfLine then
                        maybeDeallocateOpaqueExistential src result flags
                      else if \<not> canTake \<and> shouldDeallocateSource result flags then
                        [Vw_destroy srcType src]
                      else []))))
      | _ \<Rightarrow> (Inl Undefined, []))"
| "dynamicCastToUnknownClassFromExistential rt src srcType targetType flags =
     (case srcType of
        ExistentialTypeMetadata RepClass _ \<Rightarrow>
          (case src of
             ClassExistentialContainer obj _ \<Rightarrow>
               dynamicCastUnknownClassIndirect obj targetType flags
           | _ \<Rightarrow> (Inl Undefined, []))
      | ExistentialTypeMetadata RepOpaque _ \<Rightarrow>
          (case src of
             OpaqueExistentialContainer srcCapturedType srcValue _ \<Rightarrow>
               (case swift_dynamicCast rt srcValue srcCapturedType targetType flags of
                  (Inl a, ev) \<Rightarrow> (Inl a, ev)
                | (Inr result, ev) \<Rightarrow>
                    (Inr result,
                     ev @ (if \<not> storedInline rt srcCapturedType
                           then maybeDeallocateOpaqueExistential src result flags else [])))
           | _ \<Rightarrow> (Inl Undefined, []))
      | ExistentialTypeMetadata RepErrorProtocol _ \<Rightarrow>
          (case src of
             SwiftErrorBox srcCapturedType srcValue _ \<Rightarrow>
               (let subFlags = flags - {TakeOnSuccess, DestroyOnFailure} in
                case swift_dynamicCast rt srcValue srcCapturedType targetType subFlags of
                  (Inl a, ev) \<Rightarrow> (Inl a, ev)
                | (Inr result, ev) \<Rightarrow>
                    (Inr result,
                     ev @ (if shouldDeallocateSource result flags
                           then [Vw_destroy srcType src] else [])))
           | _ \<Rightarrow> (Inl Undefined, []))
      | _ \<Rightarrow> (Inl Undefined, []))"
| "dynamicCastToFunction rt src srcType targetType flags =
     (if srcType = targetType then succeed src srcType flags
      else
      (case srcType of
         FunctionTypeMetadata srcConvention srcThrows srcArguments srcResultType \<Rightarrow>
           (case targetType of
              FunctionTypeMetadata targetConvention targetThrows targetArguments targetResultType \<Rightarrow>
                if (length srcArguments, srcConvention) \<noteq> (length targetArguments, targetConvention)
                then fail src srcType targetType flags None
                else if srcThrows \<and> \<not> targetThrows then fail src srcType targetType flags None
                else if srcResultType \<noteq> targetResultType then
                  fail src srcType targetType flags None
                else if length srcArguments \<noteq> length targetArguments then
                  fail src srcType targetType flags None
                else if list_ex (\<lambda>i. srcArguments ! i \<noteq> targetArguments ! i) [0..<length srcArguments] then
                  fail src srcType targetType flags None
                else succeed src srcType flags
            | _ \<Rightarrow> (Inl Undefined, []))
       | ExistentialTypeMetadata _ _ \<Rightarrow>
           dynamicCastFromExistential rt src srcType targetType flags
       | _ \<Rightarrow> fail src srcType targetType flags None))"
  by pat_completeness auto
termination
proof -
  have payload: "containerDepth (payloadOf t v) \<le> containerDepth v" for t v
    by (cases "(t, v)" rule: payloadOf.cases) auto
  have payload3:
    "3 * containerDepth (payloadOf t v) < 3 + 3 * containerDepth v"
    "3 * containerDepth (payloadOf t v) < Suc (Suc (3 * containerDepth v))"
    "3 * containerDepth (payloadOf t v) < Suc (3 * containerDepth v)" for t v
    using payload [of t v] by auto
  have captured: "Suc (Suc (3 * containerDepth a)) < 3 * containerDepth v"
    if "capturedValue rt rep v = Some (a, b, c, d)" for rt :: Runtime and rep v a b c d
    using that by (cases "(rt, rep, v)" rule: capturedValue.cases) auto
  show ?thesis
    apply (relation "measure (\<lambda>x. case x of
               Inl (Inl (rt, src, st, tt, fl)) \<Rightarrow> 3 * (containerDepth src + size tt) + 2
             | Inl (Inr (rt, src, st, tt, fl)) \<Rightarrow> 3 * (containerDepth src + size tt)
             | Inr (Inl (rt, src, st, tt, fl)) \<Rightarrow> 3 * (containerDepth src + size tt)
             | Inr (Inr (rt, src, st, tt, fl)) \<Rightarrow> 3 * (containerDepth src + size tt) + 1)")
             apply (auto simp: payload3 dest!: sym [of "Some _" "capturedValue _ _ _"] captured)
    done
qed

subsection \<open>Reading the calls of a cast\<close>

text \<open>The calls that store through \<^verbatim>\<open>dest\<close>.\<close>

fun writesDest :: "Event \<Rightarrow> bool" where
  "writesDest (Vw_destroy _ _) = False"
| "writesDest (Vw_deallocateBuffer _) = False"
| "writesDest (Swift_retain _) = False"
| "writesDest (Swift_unknownRetain _) = False"
| "writesDest (Swift_unknownRelease _) = False"
| "writesDest (Swift_allocError _ _ _ _) = False"
| "writesDest _ = True"

text \<open>The stores that give \<^verbatim>\<open>dest\<close> its value: all but the store of a witness table and
  the store of a metatype word.\<close>

fun initialisesDest :: "Event \<Rightarrow> bool" where
  "initialisesDest (StoreWitnessTable _ _) = False"
| "initialisesDest (StoreMetatype _) = False"
| "initialisesDest e = writesDest e"

text \<open>
  What a call does to the ownership the caller holds in the source value: the value is
  destroyed or taken (one ownership is given up); a reference of the source is stored
  into \<^verbatim>\<open>dest\<close> (given up to the destination) or retained (one more ownership, so that the
  stored copy leaves the source its own).
\<close>

fun ownershipGivenUp :: "Event \<Rightarrow> int" where
  "ownershipGivenUp (Vw_destroy _ _) = 1"
| "ownershipGivenUp (Vw_initializeWithTake _ _) = 1"
| "ownershipGivenUp (Vw_initializeBufferWithTake _ _) = 1"
| "ownershipGivenUp (Swift_unknownRelease _) = 1"
| "ownershipGivenUp (Swift_allocError _ _ _ isTake) = (if isTake then 1 else 0)"
| "ownershipGivenUp (StoreObject _) = 1"
| "ownershipGivenUp (Swift_retain _) = - 1"
| "ownershipGivenUp (Swift_unknownRetain _) = - 1"
| "ownershipGivenUp _ = 0"

definition released :: "Event list \<Rightarrow> int" where
  "released ev = sum_list (map ownershipGivenUp ev)"

text \<open>An abort with the diagnostic of a failed cast, which names two types.\<close>

fun isCastFailure :: "Abort + 'a \<Rightarrow> bool" where
  "isCastFailure (Inl (CastFailure _ _)) = True"
| "isCastFailure _ = False"

text \<open>
  The result of an unconditional cast beside the result of the same cast without the flag
  \<^verbatim>\<open>Unconditional\<close>: where the conditional cast returns false the unconditional one aborts
  with the diagnostic of a failed cast, and otherwise the two results are the same.
\<close>

definition unconditionalOf :: "CastResult \<Rightarrow> CastResult \<Rightarrow> bool" where
  "unconditionalOf conditional unconditional =
     (if fst conditional = Inr False then isCastFailure (fst unconditional)
      else unconditional = conditional)"

text \<open>The calls that take, destroy or release the value they are given, or free its
  buffer.\<close>

fun consumesSource :: "Event \<Rightarrow> bool" where
  "consumesSource (Vw_destroy _ _) = True"
| "consumesSource (Vw_initializeWithTake _ _) = True"
| "consumesSource (Vw_initializeBufferWithTake _ _) = True"
| "consumesSource (Vw_deallocateBuffer _) = True"
| "consumesSource (Swift_unknownRelease _) = True"
| "consumesSource (Swift_allocError _ _ _ isTake) = isTake"
| "consumesSource _ = False"

text \<open>A target that is a metatype or an existential metatype under its \<^verbatim>\<open>Optional\<close>s.\<close>

fun isMetatypeTarget :: "Metadata \<Rightarrow> bool" where
  "isMetatypeTarget (OptionalMetadata t) = isMetatypeTarget t"
| "isMetatypeTarget (MetatypeMetadata _) = True"
| "isMetatypeTarget (ExistentialMetatypeMetadata _) = True"
| "isMetatypeTarget _ = False"

text \<open>A target that is an existential or an existential metatype under its \<^verbatim>\<open>Optional\<close>s:
  the targets whose rules check protocol conformances.\<close>

fun isExistentialTarget :: "Metadata \<Rightarrow> bool" where
  "isExistentialTarget (OptionalMetadata t) = isExistentialTarget t"
| "isExistentialTarget (ExistentialTypeMetadata _ _) = True"
| "isExistentialTarget (ExistentialMetatypeMetadata _) = True"
| "isExistentialTarget _ = False"

text \<open>A source that is a metatype word under its \<^verbatim>\<open>Optional\<close>s and its existential
  containers: the value \<^verbatim>\<open>swift_dynamicCast\<close> reaches when it has unwrapped the source.\<close>

function (sequential) describesMetatype :: "OpaqueValue \<Rightarrow> Metadata \<Rightarrow> bool" where
  "describesMetatype v (MetatypeMetadata _) = True"
| "describesMetatype v (ExistentialMetatypeMetadata _) = True"
| "describesMetatype (OptionalSome v) (OptionalMetadata t) = describesMetatype v t"
| "describesMetatype (ClassExistentialContainer object _) (ExistentialTypeMetadata RepClass _) =
     describesMetatype (Reference object) (isa object)"
| "describesMetatype (OpaqueExistentialContainer t v _) (ExistentialTypeMetadata RepOpaque _) =
     describesMetatype v t"
| "describesMetatype (SwiftErrorBox t v _) (ExistentialTypeMetadata RepErrorProtocol _) =
     describesMetatype v t"
| "describesMetatype _ _ = False"
  by pat_completeness auto
termination
  by (relation "measure (\<lambda>(v, t). containerDepth v)") auto

text \<open>
  What a cast keeps, whatever its arguments: with \<^verbatim>\<open>Unconditional\<close> it does not return
  false; when it returns false it has given \<^verbatim>\<open>dest\<close> no value, and has stored nothing
  at all unless \<open>leaky\<close>; when it returns, the ownership of the source is given up
  once if \<^verbatim>\<open>shouldDeallocateSource\<close> says so and not at all otherwise, or, if \<open>exempt\<close>,
  not at all.
\<close>

definition castContract :: "DynamicCastFlags \<Rightarrow> bool \<Rightarrow> bool \<Rightarrow> CastResult \<Rightarrow> bool" where
  "castContract flags exempt leaky r =
     ((Unconditional \<in> flags \<longrightarrow> fst r \<noteq> Inr False) \<and>
      (fst r = Inr False \<longrightarrow>
         filter initialisesDest (snd r) = [] \<and> (leaky \<or> filter writesDest (snd r) = [])) \<and>
      (case fst r of
         Inl _ \<Rightarrow> True
       | Inr b \<Rightarrow>
           released (snd r) = (if shouldDeallocateSource b flags then 1 else 0) \<or>
           exempt \<and> released (snd r) = 0))"

subsection \<open>Sample descriptors\<close>

text \<open>A runtime in which the struct 1 conforms to the protocol 1 with the witness table 7,
  and nothing else conforms to anything; every value is stored inline.\<close>

definition sampleRuntime :: Runtime where
  "sampleRuntime =
     \<lparr> swift_conformsToProtocol =
         (\<lambda>t p. if t = StructMetadata 1 \<and> protocolName p = 1 then Some 7 else None),
       swift_dynamicCastForeignClassMetatype = (\<lambda>s t. None),
       storedInline = (\<lambda>t. True) \<rparr>"

definition sampleProtocol :: "nat \<Rightarrow> ProtocolDescriptor" where
  "sampleProtocol n = ProtocolDescriptor n NoSpecialProtocol True DispatchSwift"

text \<open>\<^verbatim>\<open>Any\<close>: the opaque existential with no protocol.\<close>

definition AnyType :: Metadata where
  "AnyType = ExistentialTypeMetadata RepOpaque []"

definition Base :: Metadata where
  "Base = ClassMetadata 1 None"

definition Derived :: Metadata where
  "Derived = ClassMetadata 2 (Some Base)"

fun isStoreWitnessTable :: "Event \<Rightarrow> bool" where
  "isStoreWitnessTable (StoreWitnessTable _ _) = True"
| "isStoreWitnessTable _ = False"

subsection \<open>The rules of the specification\<close>

text \<open>
  Function types are compatible when they have the same number of arguments, each
  argument has the same type and the same by-reference flag, the result types and the
  calling conventions are the same, and the source does not throw unless the target does.
\<close>

definition functionTypesCompatible :: "Metadata \<Rightarrow> Metadata \<Rightarrow> bool" where
  "functionTypesCompatible srcType targetType =
     (case (srcType, targetType) of
        (FunctionTypeMetadata srcConvention srcThrows srcArguments srcResultType,
         FunctionTypeMetadata targetConvention targetThrows targetArguments targetResultType) \<Rightarrow>
          length srcArguments = length targetArguments \<and>
          list_all2 (\<lambda>a b. fst a = fst b \<and> snd a = snd b) srcArguments targetArguments \<and>
          srcResultType = targetResultType \<and>
          srcConvention = targetConvention \<and>
          (srcThrows \<longrightarrow> targetThrows)
      | _ \<Rightarrow> False)"

text \<open>The containers the unwrapping of a source goes through, outermost first, each with
  the representation of its existential type.\<close>

fun traversedContainers ::
  "OpaqueValue \<Rightarrow> Metadata \<Rightarrow> (ExistentialTypeRepresentation \<times> OpaqueValue) list" where
  "traversedContainers (ClassExistentialContainer object ws) (ExistentialTypeMetadata RepClass ps) =
     [(RepClass, ClassExistentialContainer object ws)]"
| "traversedContainers (OpaqueExistentialContainer type v ws) (ExistentialTypeMetadata RepOpaque ps) =
     (RepOpaque, OpaqueExistentialContainer type v ws) # traversedContainers v type"
| "traversedContainers (SwiftErrorBox type v ws) (ExistentialTypeMetadata RepErrorProtocol ps) =
     (RepErrorProtocol, SwiftErrorBox type v ws) # traversedContainers v type"
| "traversedContainers v type = []"

text \<open>The equations of the recursive functions are unfolded by hand in the proofs.\<close>

declare findDynamicValueAndType.simps [simp del]
declare dynamicCastToMetatype.simps [simp del]
declare dynamicCastToExistentialMetatype.simps [simp del]
declare swift_dynamicCast.simps [simp del]
declare dynamicCastFromExistential.simps [simp del]
declare dynamicCastToUnknownClassFromExistential.simps [simp del]
declare dynamicCastToFunction.simps [simp del]

section \<open>Properties\<close>

subsection \<open>Metatype casts\<close>

lemma dynamicCastClassMetatype_chain:
  "dynamicCastClassMetatype s t \<noteq> None \<longleftrightarrow> t \<in> set (superclassChain s)"
proof (induction s rule: superclassChain.induct)
  case (1 n)
  show ?case by auto
next
  case (2 n super)
  then show ?case by auto
qed auto

lemma dynamicCastClassMetatype_subclass:
  "isNull (dynamicCastClassMetatype s t) \<longleftrightarrow> \<not> isSubclassOrEqual s t"
  using dynamicCastClassMetatype_chain [of s t] by (auto simp: isNull_def isSubclassOrEqual_def)

lemma getKind_Class_wrappedClass: "getKind t = Class \<Longrightarrow> wrappedClass t = t"
  by (cases t) auto

subsection \<open>Basic facts about the calls\<close>

lemma withEvents_Nil [simp]: "withEvents [] r = r"
  by (simp add: withEvents_def)

lemma released_Nil [simp]: "released [] = 0"
  by (simp add: released_def)

lemma released_append [simp]: "released (xs @ ys) = released xs + released ys"
  by (simp add: released_def)

lemma released_Cons [simp]: "released (e # ev) = ownershipGivenUp e + released ev"
  by (simp add: released_def)

lemma released_storeWitnessTables [simp]: "released (storeWitnessTables ws) = 0"
  by (induction ws) (auto simp: storeWitnessTables_def)

lemma list_all_storeWitnessTables: "list_all isStoreWitnessTable (storeWitnessTables ws)"
  by (induction ws) (auto simp: storeWitnessTables_def)

lemma fst_fail: "fst (fail s st tt fl d) \<noteq> Inr True"
  by (simp add: fail_def)

lemma fail_cases: "fail s st tt fl d = (r, ev) \<Longrightarrow> r \<noteq> Inr True"
  using fst_fail [of s st tt fl d] by auto

lemma payloadOf_nonOptional: "getKind t \<noteq> Optional \<Longrightarrow> payloadOf t v = v"
  by (cases "(t, v)" rule: payloadOf.cases) auto

lemma checkDynamicCastFromOptional_nonOptional:
  "getKind srcType \<noteq> Optional \<Longrightarrow>
   checkDynamicCastFromOptional rt src srcType targetType flags =
     (Inr (OptionalCastResult False (Some srcType)), [])"
  by (cases srcType) (simp_all add: checkDynamicCastFromOptional_def)

subsection \<open>Casts between function types\<close>

lemma arguments_differ:
  "length xs = n \<Longrightarrow> length ys = n \<Longrightarrow>
   list_ex (\<lambda>i. xs ! i \<noteq> ys ! i) [0..<n] \<longleftrightarrow> xs \<noteq> ys"
  using list_eq_iff_nth_eq [of xs ys] by (auto simp: list_ex_iff)

lemma list_ex_False: "\<not> list_ex (\<lambda>i. False) xs"
  by (simp add: list_ex_iff)

lemma list_all2_pairs: "list_all2 (\<lambda>a b. fst a = fst b \<and> snd a = snd b) xs ys \<longleftrightarrow> xs = ys"
  using list_eq_iff_nth_eq [of xs ys] by (auto simp: list_all2_conv_all_nth prod_eq_iff)

lemma dynamicCastToFunction_functions:
  "dynamicCastToFunction rt src (FunctionTypeMetadata sc sth sargs sres)
     (FunctionTypeMetadata tc tth targs tres) flags =
     (if FunctionTypeMetadata sc sth sargs sres = FunctionTypeMetadata tc tth targs tres \<or>
         functionTypesCompatible (FunctionTypeMetadata sc sth sargs sres)
           (FunctionTypeMetadata tc tth targs tres)
      then succeed src (FunctionTypeMetadata sc sth sargs sres) flags
      else fail src (FunctionTypeMetadata sc sth sargs sres)
             (FunctionTypeMetadata tc tth targs tres) flags None)"
proof (cases "length sargs = length targs")
  case True
  then show ?thesis
    by (simp add: dynamicCastToFunction.simps arguments_differ [OF True refl]
        arguments_differ [OF refl True [symmetric]] functionTypesCompatible_def
        list_all2_pairs list_ex_False)
next
  case False
  then show ?thesis
    by (auto simp: dynamicCastToFunction.simps functionTypesCompatible_def)
qed

text \<open>
  C5.  A cast between function types succeeds on the same descriptor; otherwise it
  succeeds exactly when the two types are compatible: the same number of arguments, the
  same type and by-reference flag for each argument, the same result type, the same
  calling convention, and a source that throws only if the target throws.  In every
  other case it fails (returning false, or aborting when unconditional); in particular
  it fails whenever the argument lists differ, whatever the throwing flags.
\<close>

theorem function_cast_structural:
  assumes "getKind srcType = Function" and "getKind targetType = Function"
  shows "swift_dynamicCast rt src srcType targetType flags =
           (if srcType = targetType \<or> functionTypesCompatible srcType targetType
            then succeed src srcType flags
            else fail src srcType targetType flags None)"
proof -
  obtain sc sth sargs sres where s: "srcType = FunctionTypeMetadata sc sth sargs sres"
    using assms(1) by (cases srcType) auto
  obtain tc tth targs tres where t: "targetType = FunctionTypeMetadata tc tth targs tres"
    using assms(2) by (cases targetType) auto
  show ?thesis
    unfolding s t
    by (subst swift_dynamicCast.simps)
       (simp add: checkDynamicCastFromOptional_nonOptional payloadOf_nonOptional
          dynamicCastToFunction_functions)
qed

theorem function_cast_structural_witness:
  "swift_dynamicCast sampleRuntime (Bits 0)
     (FunctionTypeMetadata ConvSwift False [(StructMetadata 1, False)] (StructMetadata 2))
     (FunctionTypeMetadata ConvSwift True [(StructMetadata 1, False)] (StructMetadata 2)) {} =
     (Inr True,
      [Vw_initializeWithCopy
         (FunctionTypeMetadata ConvSwift False [(StructMetadata 1, False)] (StructMetadata 2))
         (Bits 0)]) \<and>
   swift_dynamicCast sampleRuntime (Bits 0)
     (FunctionTypeMetadata ConvSwift True [(StructMetadata 1, False)] (StructMetadata 2))
     (FunctionTypeMetadata ConvSwift False [(StructMetadata 1, False)] (StructMetadata 2)) {} =
     (Inr False, []) \<and>
   swift_dynamicCast sampleRuntime (Bits 0)
     (FunctionTypeMetadata ConvSwift False [(StructMetadata 1, False)] (StructMetadata 2))
     (FunctionTypeMetadata ConvSwift True [(StructMetadata 3, False)] (StructMetadata 2)) {} =
     (Inr False, []) \<and>
   swift_dynamicCast sampleRuntime (Bits 0)
     (FunctionTypeMetadata ConvSwift False [(StructMetadata 1, False)] (StructMetadata 2))
     (FunctionTypeMetadata ConvSwift False [(StructMetadata 1, True)] (StructMetadata 2))
     {Unconditional} =
     (Inl (CastFailure
         (FunctionTypeMetadata ConvSwift False [(StructMetadata 1, False)] (StructMetadata 2))
         (FunctionTypeMetadata ConvSwift False [(StructMetadata 1, True)] (StructMetadata 2))),
      [])"
  using
    function_cast_structural [of
      "FunctionTypeMetadata ConvSwift False [(StructMetadata 1, False)] (StructMetadata 2)"
      "FunctionTypeMetadata ConvSwift True [(StructMetadata 1, False)] (StructMetadata 2)"
      sampleRuntime "Bits 0" "{}"]
    function_cast_structural [of
      "FunctionTypeMetadata ConvSwift True [(StructMetadata 1, False)] (StructMetadata 2)"
      "FunctionTypeMetadata ConvSwift False [(StructMetadata 1, False)] (StructMetadata 2)"
      sampleRuntime "Bits 0" "{}"]
    function_cast_structural [of
      "FunctionTypeMetadata ConvSwift False [(StructMetadata 1, False)] (StructMetadata 2)"
      "FunctionTypeMetadata ConvSwift True [(StructMetadata 3, False)] (StructMetadata 2)"
      sampleRuntime "Bits 0" "{}"]
    function_cast_structural [of
      "FunctionTypeMetadata ConvSwift False [(StructMetadata 1, False)] (StructMetadata 2)"
      "FunctionTypeMetadata ConvSwift False [(StructMetadata 1, True)] (StructMetadata 2)"
      sampleRuntime "Bits 0" "{Unconditional}"]
  by (simp add: functionTypesCompatible_def succeed_def fail_def)


subsection \<open>An Optional source and an existential target\<close>

lemma findDynamicValueAndType_Optional:
  "findDynamicValueAndType rt atSrc src (OptionalMetadata p) canTake =
     Inr (atSrc, src, OptionalMetadata p, canTake)"
  by (simp add: findDynamicValueAndType.simps)

lemma conformsToProtocol_Optional: "conformsToProtocol rt (OptionalMetadata p) protocol \<noteq> Inl a"
  by (auto simp: conformsToProtocol_def split: option.splits)

lemma conformsToProtocols_Optional:
  "fst (conformsToProtocols rt (OptionalMetadata p) protocols slot) \<noteq> Inl a"
proof (induction protocols arbitrary: slot)
  case Nil
  show ?case by simp
next
  case (Cons protocol protocols)
  show ?case
    using conformsToProtocol_Optional [of rt p protocol] Cons.IH
    by (cases "conformsToProtocol rt (OptionalMetadata p) protocol")
       (auto simp: Let_def split: if_splits)
qed

lemma attempt_on_Optional:
  assumes "dynamicCastToExistential rt src (OptionalMetadata p)
             (ExistentialTypeMetadata rep protocols)
             (flags - {Unconditional, DestroyOnFailure}) = r"
  shows "(\<forall>s t. fst r \<noteq> Inl (CastFailure s t)) \<and> (\<forall>t. fst r \<noteq> Inl (CorruptType t)) \<and>
         (fst r = Inr False \<longrightarrow> list_all isStoreWitnessTable (snd r) \<and> released (snd r) = 0)"
  using conformsToProtocols_Optional [of rt p protocols 0] assms
  by (cases rep; cases "fst (conformsToProtocols rt (OptionalMetadata p) protocols 0)")
     (auto simp: dynamicCastToExistential_def findDynamicValueAndType_Optional fail_def Let_def
      withEvents_def list_all_storeWitnessTables split: bool.splits option.splits)

lemma cast_None_to_Existential:
  "swift_dynamicCast rt OptionalNone (OptionalMetadata p) (ExistentialTypeMetadata rep ps) flags =
     (case dynamicCastToExistential rt OptionalNone (OptionalMetadata p)
             (ExistentialTypeMetadata rep ps) (flags - {Unconditional, DestroyOnFailure}) of
        (Inl a, ev) \<Rightarrow> (Inl a, ev)
      | (Inr True, ev) \<Rightarrow> (Inr True, ev)
      | (Inr False, ev) \<Rightarrow>
          withEvents ev
            (fail OptionalNone (OptionalMetadata p) (ExistentialTypeMetadata rep ps) flags None))"
proof -
  let ?T = "ExistentialTypeMetadata rep ps"
  obtain r ev where a: "dynamicCastToExistential rt OptionalNone (OptionalMetadata p) ?T
      (flags - {Unconditional, DestroyOnFailure}) = (r, ev)"
    by (cases "dynamicCastToExistential rt OptionalNone (OptionalMetadata p) ?T
      (flags - {Unconditional, DestroyOnFailure})") auto
  obtain r' ev' where f: "fail OptionalNone (OptionalMetadata p) ?T flags None = (r', ev')"
    by (cases "fail OptionalNone (OptionalMetadata p) ?T flags None") auto
  have r': "r' \<noteq> Inr True"
    using fail_cases [OF f] .
  show ?thesis
    using r'
    by (subst swift_dynamicCast.simps; cases r; cases r')
       (simp_all add: checkDynamicCastFromOptional_def a f Let_def withEvents_def
          split: bool.splits)
qed

lemma cast_Some_to_Existential:
  "swift_dynamicCast rt (OptionalSome w) (OptionalMetadata p) (ExistentialTypeMetadata rep ps) flags =
     (case dynamicCastToExistential rt (OptionalSome w) (OptionalMetadata p)
             (ExistentialTypeMetadata rep ps) (flags - {Unconditional, DestroyOnFailure}) of
        (Inl a, ev) \<Rightarrow> (Inl a, ev)
      | (Inr True, ev) \<Rightarrow> (Inr True, ev)
      | (Inr False, ev) \<Rightarrow>
          withEvents ev (dynamicCastToExistential rt w p (ExistentialTypeMetadata rep ps) flags))"
proof -
  let ?T = "ExistentialTypeMetadata rep ps"
  obtain r ev where a: "dynamicCastToExistential rt (OptionalSome w) (OptionalMetadata p) ?T
      (flags - {Unconditional, DestroyOnFailure}) = (r, ev)"
    by (cases "dynamicCastToExistential rt (OptionalSome w) (OptionalMetadata p) ?T
      (flags - {Unconditional, DestroyOnFailure})") auto
  show ?thesis
    by (subst swift_dynamicCast.simps; cases r)
       (simp_all add: checkDynamicCastFromOptional_def a Let_def withEvents_def
          split: bool.splits)
qed

lemma Optional_into_Any:
  "dynamicCastToExistential rt src (OptionalMetadata p) AnyType flags =
     (Inr True,
      [StoreType (OptionalMetadata p),
       if TakeOnSuccess \<in> flags then Vw_initializeBufferWithTake (OptionalMetadata p) src
       else Vw_initializeBufferWithCopy (OptionalMetadata p) src])"
  by (simp add: dynamicCastToExistential_def AnyType_def findDynamicValueAndType_Optional
      storeWitnessTables_def shouldDeallocateSource_def)

text \<open>
  C6.  When the source type is an Optional and the target an existential, the cast first
  tries the existential cast on the Optional value itself, whatever its case (the empty
  value and a value with a payload alike), and a successful attempt is the result of the
  whole cast.  Only when the attempt returns false does the cast go on: with the failure
  protocol for the empty case, with the existential cast of the unwrapped payload
  otherwise.  So an Optional cast to \<^verbatim>\<open>Any\<close> is stored as the Optional it is: the
  container records the Optional type and holds the empty or the non-empty value.
\<close>

theorem optional_to_existential_tries_whole_optional:
  assumes "target = ExistentialTypeMetadata rep ps"
    and "attemptNone = dynamicCastToExistential rt OptionalNone (OptionalMetadata p) target
                         (flags - {Unconditional, DestroyOnFailure})"
    and "attemptSome = dynamicCastToExistential rt (OptionalSome w) (OptionalMetadata p) target
                         (flags - {Unconditional, DestroyOnFailure})"
  shows "(fst attemptNone = Inr True \<longrightarrow>
            swift_dynamicCast rt OptionalNone (OptionalMetadata p) target flags = attemptNone) \<and>
         (fst attemptSome = Inr True \<longrightarrow>
            swift_dynamicCast rt (OptionalSome w) (OptionalMetadata p) target flags = attemptSome) \<and>
         (fst attemptNone = Inr False \<longrightarrow>
            swift_dynamicCast rt OptionalNone (OptionalMetadata p) target flags =
              withEvents (snd attemptNone)
                (fail OptionalNone (OptionalMetadata p) target flags None)) \<and>
         (fst attemptSome = Inr False \<longrightarrow>
            swift_dynamicCast rt (OptionalSome w) (OptionalMetadata p) target flags =
              withEvents (snd attemptSome) (dynamicCastToExistential rt w p target flags)) \<and>
         swift_dynamicCast rt OptionalNone (OptionalMetadata p) AnyType {} =
           (Inr True,
            [StoreType (OptionalMetadata p),
             Vw_initializeBufferWithCopy (OptionalMetadata p) OptionalNone]) \<and>
         swift_dynamicCast rt (OptionalSome w) (OptionalMetadata p) AnyType {} =
           (Inr True,
            [StoreType (OptionalMetadata p),
             Vw_initializeBufferWithCopy (OptionalMetadata p) (OptionalSome w)])"
proof -
  have any_none: "swift_dynamicCast rt OptionalNone (OptionalMetadata p) AnyType {} =
           (Inr True,
            [StoreType (OptionalMetadata p),
             Vw_initializeBufferWithCopy (OptionalMetadata p) OptionalNone])"
    using cast_None_to_Existential [of rt p RepOpaque "[]" "{}"]
    by (simp add: Optional_into_Any AnyType_def [symmetric])
  have any_some: "swift_dynamicCast rt (OptionalSome w) (OptionalMetadata p) AnyType {} =
           (Inr True,
            [StoreType (OptionalMetadata p),
             Vw_initializeBufferWithCopy (OptionalMetadata p) (OptionalSome w)])"
    using cast_Some_to_Existential [of rt w p RepOpaque "[]" "{}"]
    by (simp add: Optional_into_Any AnyType_def [symmetric])
  show ?thesis
    unfolding assms
    using any_none any_some
    by (cases "dynamicCastToExistential rt OptionalNone (OptionalMetadata p)
                 (ExistentialTypeMetadata rep ps) (flags - {Unconditional, DestroyOnFailure})";
        cases "dynamicCastToExistential rt (OptionalSome w) (OptionalMetadata p)
                 (ExistentialTypeMetadata rep ps) (flags - {Unconditional, DestroyOnFailure})")
       (simp add: cast_None_to_Existential cast_Some_to_Existential)
qed

theorem optional_to_existential_tries_whole_optional_witness:
  "swift_dynamicCast sampleRuntime OptionalNone (OptionalMetadata (StructMetadata 1)) AnyType
     {Unconditional, DestroyOnFailure} =
     (Inr True,
      [StoreType (OptionalMetadata (StructMetadata 1)),
       Vw_initializeBufferWithCopy (OptionalMetadata (StructMetadata 1)) OptionalNone]) \<and>
   swift_dynamicCast sampleRuntime (OptionalSome (Bits 5)) (OptionalMetadata (StructMetadata 1))
     (ExistentialTypeMetadata RepOpaque [sampleProtocol 1]) {} =
     (Inr True,
      [StoreWitnessTable 0 7, StoreType (StructMetadata 1),
       Vw_initializeBufferWithCopy (StructMetadata 1) (Bits 5)])"
  using
    optional_to_existential_tries_whole_optional [of AnyType RepOpaque "[]" _ sampleRuntime
      "StructMetadata 1" "{Unconditional, DestroyOnFailure}" _ "Bits 5", OF _ refl refl]
    optional_to_existential_tries_whole_optional [of
      "ExistentialTypeMetadata RepOpaque [sampleProtocol 1]" RepOpaque "[sampleProtocol 1]" _
      sampleRuntime "StructMetadata 1" "{}" _ "Bits 5", OF refl refl refl]
  by (simp add: AnyType_def dynamicCastToExistential_def findDynamicValueAndType.simps
      sampleRuntime_def sampleProtocol_def conformsToProtocol_def storeWitnessTables_def
      shouldDeallocateSource_def fail_def withEvents_def)


text \<open>
  C10.  The attempt on the whole Optional runs with the flags \<^verbatim>\<open>Unconditional\<close> and
  \<^verbatim>\<open>DestroyOnFailure\<close> taken out.  It never ends in a reported cast failure; when it
  returns false it has stored witness tables at most and has neither destroyed, taken,
  released nor retained anything of the source; and the cast then goes on with the
  source as it was and with the flags of the caller: the failure protocol for the empty
  case, the existential cast of the payload otherwise.
\<close>

theorem optional_attempt_spares_source:
  assumes "target = ExistentialTypeMetadata rep ps"
    and "src = OptionalNone \<or> src = OptionalSome w"
    and "attempt = dynamicCastToExistential rt src (OptionalMetadata p) target
                     (flags - {Unconditional, DestroyOnFailure})"
  shows "(\<forall>s t. fst attempt \<noteq> Inl (CastFailure s t)) \<and>
         (fst attempt = Inr False \<longrightarrow>
            list_all isStoreWitnessTable (snd attempt) \<and>
            released (snd attempt) = 0 \<and>
            swift_dynamicCast rt src (OptionalMetadata p) target flags =
              withEvents (snd attempt)
                (if src = OptionalNone then fail src (OptionalMetadata p) target flags None
                 else dynamicCastToExistential rt w p target flags))"
proof -
  have a: "(\<forall>s t. fst attempt \<noteq> Inl (CastFailure s t)) \<and>
         (fst attempt = Inr False \<longrightarrow>
            list_all isStoreWitnessTable (snd attempt) \<and> released (snd attempt) = 0)"
    using attempt_on_Optional [of rt src p rep ps flags attempt] assms(1,3) by simp
  have "swift_dynamicCast rt src (OptionalMetadata p) target flags =
              withEvents (snd attempt)
                (if src = OptionalNone then fail src (OptionalMetadata p) target flags None
                 else dynamicCastToExistential rt w p target flags)"
    if "fst attempt = Inr False"
  proof -
    have att: "dynamicCastToExistential rt src (OptionalMetadata p) (ExistentialTypeMetadata rep ps)
                 (flags - {Unconditional, DestroyOnFailure}) = (Inr False, snd attempt)"
      using that assms(1,3) by (simp add: prod_eq_iff)
    from assms(2) show ?thesis
    proof
      assume n: "src = OptionalNone"
      show ?thesis
        using att cast_None_to_Existential [of rt p rep ps flags]
        unfolding n assms(1) by simp
    next
      assume n: "src = OptionalSome w"
      show ?thesis
        using att cast_Some_to_Existential [of rt w p rep ps flags]
        unfolding n assms(1) by simp
    qed
  qed
  with a show ?thesis by blast
qed

theorem optional_attempt_spares_source_witness:
  "swift_dynamicCast sampleRuntime (OptionalSome (Bits 5)) (OptionalMetadata (StructMetadata 2))
     (ExistentialTypeMetadata RepOpaque [sampleProtocol 1]) {DestroyOnFailure} =
     (Inr False, [Vw_destroy (StructMetadata 2) (Bits 5)]) \<and>
   swift_dynamicCast sampleRuntime OptionalNone (OptionalMetadata (StructMetadata 2))
     (ExistentialTypeMetadata RepOpaque [sampleProtocol 1]) {Unconditional, DestroyOnFailure} =
     (Inl (CastFailure (OptionalMetadata (StructMetadata 2))
             (ExistentialTypeMetadata RepOpaque [sampleProtocol 1])), [])"
  using
    optional_attempt_spares_source [of "ExistentialTypeMetadata RepOpaque [sampleProtocol 1]"
      RepOpaque "[sampleProtocol 1]" "OptionalSome (Bits 5)" "Bits 5" _ sampleRuntime
      "StructMetadata 2" "{DestroyOnFailure}", OF refl _ refl]
    optional_attempt_spares_source [of "ExistentialTypeMetadata RepOpaque [sampleProtocol 1]"
      RepOpaque "[sampleProtocol 1]" OptionalNone "Bits 5" _ sampleRuntime
      "StructMetadata 2" "{Unconditional, DestroyOnFailure}", OF refl _ refl]
  by (simp add: dynamicCastToExistential_def findDynamicValueAndType.simps
      sampleRuntime_def sampleProtocol_def conformsToProtocol_def storeWitnessTables_def
      shouldDeallocateSource_def fail_def withEvents_def)

subsection \<open>The empty Optional\<close>

lemma cast_None_not_Existential:
  assumes "getKind targetType \<noteq> Existential"
  shows "swift_dynamicCast rt OptionalNone (OptionalMetadata p) targetType flags =
     (if getKind targetType = Optional then
        (Inr True,
         Swift_storeEnumTagSinglePayload p 0 #
         snd (succeed OptionalNone (OptionalMetadata p) flags))
      else fail OptionalNone (OptionalMetadata p) targetType flags None)"
proof -
  obtain r' ev' where f: "fail OptionalNone (OptionalMetadata p) targetType flags None = (r', ev')"
    by (cases "fail OptionalNone (OptionalMetadata p) targetType flags None") auto
  have r': "r' \<noteq> Inr True"
    using fail_cases [OF f] .
  show ?thesis
    using r' assms
    by (subst swift_dynamicCast.simps; cases r')
       (simp_all add: checkDynamicCastFromOptional_def f Let_def split: bool.splits)
qed




subsection \<open>The takability of an unwrapped source\<close>

lemma findDynamicValueAndType_Opaque:
  "findDynamicValueAndType rt atSrc (OpaqueExistentialContainer t v ws)
     (ExistentialTypeMetadata RepOpaque ps) canTake =
     findDynamicValueAndType rt (atSrc \<and> storedInline rt t) v t canTake"
  by (subst findDynamicValueAndType.simps) simp

lemma findDynamicValueAndType_ErrorBox:
  "findDynamicValueAndType rt atSrc (SwiftErrorBox t v ws)
     (ExistentialTypeMetadata RepErrorProtocol ps) canTake =
     findDynamicValueAndType rt False v t False"
  by (subst findDynamicValueAndType.simps) simp

lemma findDynamicValueAndType_ClassExistential:
  "findDynamicValueAndType rt atSrc (ClassExistentialContainer object ws)
     (ExistentialTypeMetadata RepClass ps) canTake =
     Inr (atSrc, Reference object, isa object, canTake)"
  by (subst findDynamicValueAndType.simps) simp

lemma findDynamicValueAndType_terminal:
  "getKind type \<in> {Function, HeapLocalVariable, HeapGenericLocalVariable, ErrorObject, Enum,
                    Optional, Opaque, Struct, Tuple} \<Longrightarrow>
   findDynamicValueAndType rt atSrc v type canTake = Inr (atSrc, v, type, canTake)"
  by (subst findDynamicValueAndType.simps) (cases type; simp)

lemma findDynamicValueAndType_canTake:
  "case findDynamicValueAndType rt atSrc v type canTake of
     Inl _ \<Rightarrow> True
   | Inr (atSrc', outValue, outType, canTake') \<Rightarrow>
       canTake' =
         (canTake \<and> list_all (\<lambda>(rep, c). mayTakeValue rep c) (traversedContainers v type))"
proof (induction rt atSrc v type canTake rule: findDynamicValueAndType.induct)
  case (1 rt atSrc v type inoutCanTake)
  show ?case
  proof (cases type)
    case (ExistentialTypeMetadata rep ps)
    show ?thesis
    proof (cases rep)
      case RepClass
      with ExistentialTypeMetadata show ?thesis
        by (cases v) (auto simp: findDynamicValueAndType.simps)
    next
      case RepOpaque
      show ?thesis
      proof (cases v)
        case (OpaqueExistentialContainer t inner ws)
        have pv: "projectValue rt RepOpaque v = Some (storedInline rt t, inner)"
          and dt: "getDynamicType RepOpaque v = Some t"
          using OpaqueExistentialContainer by simp_all
        show ?thesis
          using "1.IH"(1) [OF _ ExistentialTypeMetadata RepOpaque refl pv refl dt]
          unfolding ExistentialTypeMetadata RepOpaque OpaqueExistentialContainer
          by (subst findDynamicValueAndType.simps) (auto split: sum.splits)
      qed (use ExistentialTypeMetadata RepOpaque in
            \<open>auto simp: findDynamicValueAndType.simps\<close>)
    next
      case RepErrorProtocol
      show ?thesis
      proof (cases v)
        case (SwiftErrorBox t inner ws)
        have pv: "projectValue rt RepErrorProtocol v = Some (False, inner)"
          and dt: "getDynamicType RepErrorProtocol v = Some t"
          using SwiftErrorBox by simp_all
        show ?thesis
          using "1.IH"(2) [OF _ ExistentialTypeMetadata RepErrorProtocol refl pv refl dt]
          unfolding ExistentialTypeMetadata RepErrorProtocol SwiftErrorBox
          by (subst findDynamicValueAndType.simps) (auto split: sum.splits)
      qed (use ExistentialTypeMetadata RepErrorProtocol in
            \<open>auto simp: findDynamicValueAndType.simps\<close>)
    qed
  qed (auto simp: findDynamicValueAndType.simps split: option.splits)
qed

lemma consumesSource_storeWitnessTables [simp]:
  "list_all (\<lambda>e. consumesSource e \<longrightarrow> P e) (storeWitnessTables ws)"
  by (induction ws) (auto simp: storeWitnessTables_def)

lemma findDynamicValueAndType_untakable:
  "findDynamicValueAndType rt atSrc v type False = Inr (atSrc', outValue, outType, canTake') \<Longrightarrow>
   \<not> canTake'"
  using findDynamicValueAndType_canTake
          [where rt = rt and atSrc = atSrc and v = v and type = type and canTake = False]
  by simp

lemma error_box_to_existential:
  assumes "src = SwiftErrorBox t v ws" and "srcType = ExistentialTypeMetadata RepErrorProtocol ps"
    and "target = ExistentialTypeMetadata rep' ps'"
  shows "list_all (\<lambda>e. consumesSource e \<longrightarrow> e = Vw_destroy srcType src)
           (snd (swift_dynamicCast rt src srcType target flags))"
proof -
  have k: "getKind srcType \<noteq> Optional"
    using assms(2) by simp
  have eq: "swift_dynamicCast rt src srcType target flags =
              dynamicCastToExistential rt src srcType target flags"
    unfolding assms(3)
    by (subst swift_dynamicCast.simps)
       (simp add: checkDynamicCastFromOptional_nonOptional [OF k] payloadOf_nonOptional [OF k])
  show ?thesis
  proof (cases "findDynamicValueAndType rt False v t False")
    case (Inl a)
    then show ?thesis
      unfolding eq unfolding assms
      by (simp add: dynamicCastToExistential_def findDynamicValueAndType_ErrorBox)
  next
    case (Inr x)
    obtain a dv dt c where x: "x = (a, dv, dt, c)"
      by (cases x) auto
    have c: "\<not> c"
      using findDynamicValueAndType_untakable Inr x by blast
    obtain cr cw where cf: "conformsToProtocols rt dt ps' 0 = (cr, cw)"
      by (cases "conformsToProtocols rt dt ps' 0") auto
    show ?thesis
      unfolding eq unfolding assms
      using c
      by (cases rep'; cases cr)
         (auto simp: dynamicCastToExistential_def findDynamicValueAndType_ErrorBox Inr x cf
            Let_def fail_def withEvents_def split: bool.splits option.splits)
  qed
qed

lemma error_box_from_existential:
  "dynamicCastFromExistential rt (SwiftErrorBox t v ws)
     (ExistentialTypeMetadata RepErrorProtocol ps) target flags =
     (case swift_dynamicCast rt v t target (flags - {DestroyOnFailure, TakeOnSuccess}) of
        (Inl a, ev) \<Rightarrow> (Inl a, ev)
      | (Inr result, ev) \<Rightarrow>
          (Inr result,
           ev @ (if shouldDeallocateSource result flags
                 then [Vw_destroy (ExistentialTypeMetadata RepErrorProtocol ps)
                         (SwiftErrorBox t v ws)]
                 else [])))"
  by (subst dynamicCastFromExistential.simps) (simp split: prod.splits sum.splits)

text \<open>
  C9.  The unwrapping of a source answers, with the innermost value and its dynamic type,
  a takability flag that is the conjunction of the flag the caller passes in and of the
  permission to take of every container it goes through; so the flag is false as soon as
  one of them is an error box.  The switch of \<^verbatim>\<open>_dynamicCastFromExistential\<close> likewise
  answers \<^verbatim>\<open>canTake = false\<close> for an error box.  (The function is a function of its
  arguments only: the C code writes nothing but its three results.)  In the casts that
  use the flag the payload of an error box is copied only: the cast of an error box to
  an existential calls no take and destroys nothing but the box itself, and
  \<^verbatim>\<open>_dynamicCastFromExistential\<close> casts the payload of an error box with \<^verbatim>\<open>TakeOnSuccess\<close>
  and \<^verbatim>\<open>DestroyOnFailure\<close> taken out, and then destroys the box as the flags of the
  caller say.
\<close>

theorem unwrapping_takability:
  "(findDynamicValueAndType rt atSrc v type canTake = Inr (atSrc', outValue, outType, canTake') \<longrightarrow>
      canTake' =
        (canTake \<and> list_all (\<lambda>(rep, c). mayTakeValue rep c) (traversedContainers v type)) \<and>
      (list_ex (\<lambda>(rep, c). rep = RepErrorProtocol) (traversedContainers v type) \<longrightarrow>
         \<not> canTake')) \<and>
   (capturedValue rt RepErrorProtocol src = Some (srcValue, srcCapturedType, isOutOfLine, srcCanTake) \<longrightarrow>
      \<not> srcCanTake) \<and>
   list_all
     (\<lambda>e. consumesSource e \<longrightarrow>
          e = Vw_destroy (ExistentialTypeMetadata RepErrorProtocol ps) (SwiftErrorBox t payload ws))
     (snd (swift_dynamicCast rt (SwiftErrorBox t payload ws)
             (ExistentialTypeMetadata RepErrorProtocol ps)
             (ExistentialTypeMetadata targetRepresentation targetProtocols) flags)) \<and>
   dynamicCastFromExistential rt (SwiftErrorBox t payload ws)
     (ExistentialTypeMetadata RepErrorProtocol ps) targetType flags =
     (case swift_dynamicCast rt payload t targetType (flags - {DestroyOnFailure, TakeOnSuccess}) of
        (Inl a, ev) \<Rightarrow> (Inl a, ev)
      | (Inr result, ev) \<Rightarrow>
          (Inr result,
           ev @ (if shouldDeallocateSource result flags
                 then [Vw_destroy (ExistentialTypeMetadata RepErrorProtocol ps)
                         (SwiftErrorBox t payload ws)]
                 else [])))"
proof (intro conjI impI)
  assume r: "findDynamicValueAndType rt atSrc v type canTake =
               Inr (atSrc', outValue, outType, canTake')"
  show c: "canTake' =
        (canTake \<and> list_all (\<lambda>(rep, c). mayTakeValue rep c) (traversedContainers v type))"
    using findDynamicValueAndType_canTake
            [where rt = rt and atSrc = atSrc and v = v and type = type and canTake = canTake] r
    by simp
  assume "list_ex (\<lambda>(rep, c). rep = RepErrorProtocol) (traversedContainers v type)"
  then show "\<not> canTake'"
    unfolding c by (force simp: list_ex_iff list_all_iff)
next
  assume "capturedValue rt RepErrorProtocol src =
            Some (srcValue, srcCapturedType, isOutOfLine, srcCanTake)"
  then show "\<not> srcCanTake"
    by (cases src) auto
next
  show "list_all
     (\<lambda>e. consumesSource e \<longrightarrow>
          e = Vw_destroy (ExistentialTypeMetadata RepErrorProtocol ps) (SwiftErrorBox t payload ws))
     (snd (swift_dynamicCast rt (SwiftErrorBox t payload ws)
             (ExistentialTypeMetadata RepErrorProtocol ps)
             (ExistentialTypeMetadata targetRepresentation targetProtocols) flags))"
    using error_box_to_existential [OF refl refl refl] .
next
  show "dynamicCastFromExistential rt (SwiftErrorBox t payload ws)
     (ExistentialTypeMetadata RepErrorProtocol ps) targetType flags =
     (case swift_dynamicCast rt payload t targetType (flags - {DestroyOnFailure, TakeOnSuccess}) of
        (Inl a, ev) \<Rightarrow> (Inl a, ev)
      | (Inr result, ev) \<Rightarrow>
          (Inr result,
           ev @ (if shouldDeallocateSource result flags
                 then [Vw_destroy (ExistentialTypeMetadata RepErrorProtocol ps)
                         (SwiftErrorBox t payload ws)]
                 else [])))"
    by (rule error_box_from_existential)
qed

theorem unwrapping_takability_witness:
  "findDynamicValueAndType sampleRuntime True
     (OpaqueExistentialContainer (ExistentialTypeMetadata RepErrorProtocol [])
        (SwiftErrorBox (StructMetadata 1) (Bits 3) [7]) [])
     AnyType True =
     Inr (False, Bits 3, StructMetadata 1, False) \<and>
   findDynamicValueAndType sampleRuntime True
     (OpaqueExistentialContainer (StructMetadata 1) (Bits 3) []) AnyType True =
     Inr (True, Bits 3, StructMetadata 1, True) \<and>
   capturedValue sampleRuntime RepErrorProtocol (SwiftErrorBox (StructMetadata 1) (Bits 3) [7]) =
     Some (Bits 3, StructMetadata 1, True, False) \<and>
   swift_dynamicCast sampleRuntime (SwiftErrorBox (StructMetadata 1) (Bits 3) [7])
     (ExistentialTypeMetadata RepErrorProtocol []) AnyType {TakeOnSuccess} =
     (Inr True,
      [StoreType (StructMetadata 1), Vw_initializeBufferWithCopy (StructMetadata 1) (Bits 3),
       Vw_destroy (ExistentialTypeMetadata RepErrorProtocol [])
         (SwiftErrorBox (StructMetadata 1) (Bits 3) [7])]) \<and>
   dynamicCastFromExistential sampleRuntime (SwiftErrorBox (StructMetadata 1) (Bits 3) [7])
     (ExistentialTypeMetadata RepErrorProtocol []) (StructMetadata 1) {TakeOnSuccess} =
     (Inr True,
      [Vw_initializeWithCopy (StructMetadata 1) (Bits 3),
       Vw_destroy (ExistentialTypeMetadata RepErrorProtocol [])
         (SwiftErrorBox (StructMetadata 1) (Bits 3) [7])])"
proof -
  have a: "findDynamicValueAndType sampleRuntime True
     (OpaqueExistentialContainer (ExistentialTypeMetadata RepErrorProtocol [])
        (SwiftErrorBox (StructMetadata 1) (Bits 3) [7]) [])
     AnyType True =
     Inr (False, Bits 3, StructMetadata 1, False)"
    by (simp add: findDynamicValueAndType_Opaque findDynamicValueAndType_ErrorBox
        findDynamicValueAndType_terminal AnyType_def)
  have b: "findDynamicValueAndType sampleRuntime True
     (OpaqueExistentialContainer (StructMetadata 1) (Bits 3) []) AnyType True =
     Inr (True, Bits 3, StructMetadata 1, True)"
    by (simp add: findDynamicValueAndType_Opaque findDynamicValueAndType_terminal AnyType_def
        sampleRuntime_def)
  have c: "capturedValue sampleRuntime RepErrorProtocol
             (SwiftErrorBox (StructMetadata 1) (Bits 3) [7]) =
           Some (Bits 3, StructMetadata 1, True, False)"
    by simp
  have d: "swift_dynamicCast sampleRuntime (SwiftErrorBox (StructMetadata 1) (Bits 3) [7])
     (ExistentialTypeMetadata RepErrorProtocol []) AnyType {TakeOnSuccess} =
     (Inr True,
      [StoreType (StructMetadata 1), Vw_initializeBufferWithCopy (StructMetadata 1) (Bits 3),
       Vw_destroy (ExistentialTypeMetadata RepErrorProtocol [])
         (SwiftErrorBox (StructMetadata 1) (Bits 3) [7])])"
    by (simp add: swift_dynamicCast.simps checkDynamicCastFromOptional_def
        dynamicCastToExistential_def findDynamicValueAndType.simps storeWitnessTables_def
        shouldDeallocateSource_def AnyType_def)
  have s: "swift_dynamicCast sampleRuntime (Bits 3) (StructMetadata 1) (StructMetadata 1)
             ({TakeOnSuccess} - {DestroyOnFailure, TakeOnSuccess}) =
           (Inr True, [Vw_initializeWithCopy (StructMetadata 1) (Bits 3)])"
    by (simp add: swift_dynamicCast.simps checkDynamicCastFromOptional_def succeed_def)
  have e: "dynamicCastFromExistential sampleRuntime (SwiftErrorBox (StructMetadata 1) (Bits 3) [7])
     (ExistentialTypeMetadata RepErrorProtocol []) (StructMetadata 1) {TakeOnSuccess} =
     (Inr True,
      [Vw_initializeWithCopy (StructMetadata 1) (Bits 3),
       Vw_destroy (ExistentialTypeMetadata RepErrorProtocol [])
         (SwiftErrorBox (StructMetadata 1) (Bits 3) [7])])"
    using unwrapping_takability [where rt = sampleRuntime and t = "StructMetadata 1"
      and payload = "Bits 3" and ws = "[7]" and ps = "[]" and targetType = "StructMetadata 1"
      and flags = "{TakeOnSuccess}"] s
    by (simp add: shouldDeallocateSource_def)
  from a b c d e
    unwrapping_takability [where rt = sampleRuntime and atSrc = True
      and v = "OpaqueExistentialContainer (ExistentialTypeMetadata RepErrorProtocol [])
                 (SwiftErrorBox (StructMetadata 1) (Bits 3) [7]) []"
      and type = AnyType and canTake = True and atSrc' = False and outValue = "Bits 3"
      and outType = "StructMetadata 1" and canTake' = False
      and src = "SwiftErrorBox (StructMetadata 1) (Bits 3) [7]" and srcValue = "Bits 3"
      and srcCapturedType = "StructMetadata 1" and isOutOfLine = True and srcCanTake = False]
    unwrapping_takability [where rt = sampleRuntime and atSrc = True
      and v = "OpaqueExistentialContainer (StructMetadata 1) (Bits 3) []"
      and type = AnyType and canTake = True and atSrc' = True and outValue = "Bits 3"
      and outType = "StructMetadata 1" and canTake' = True
      and src = "SwiftErrorBox (StructMetadata 1) (Bits 3) [7]" and srcValue = "Bits 3"
      and srcCapturedType = "StructMetadata 1" and isOutOfLine = True and srcCanTake = False]
  show ?thesis
    by blast
qed

subsection \<open>The cast of a metatype value to a metatype type\<close>

lemma wrappedClass_other: "getKind t \<noteq> ObjCClassWrapper \<Longrightarrow> wrappedClass t = t"
  by (cases t) auto

lemma cast_of_metatype_word:
  assumes "getKind srcType \<in> {Metatype, ExistentialMetatype}" and "loadMetadata src = Some m"
  shows "swift_dynamicCast rt src srcType (MetatypeMetadata t) flags =
           dynamicCastMetatypeToMetatype rt m (MetatypeMetadata t) flags"
proof -
  have k: "getKind srcType \<noteq> Optional"
    using assms(1) by auto
  show ?thesis
    using assms
    by (subst swift_dynamicCast.simps)
       (simp add: checkDynamicCastFromOptional_nonOptional [OF k] payloadOf_nonOptional [OF k]
          dynamicCastToMetatype.simps)
qed

lemma metatype_classes:
  assumes "getKind m \<in> {Class, ObjCClassWrapper}" and "getKind t \<in> {Class, ObjCClassWrapper}"
  shows "dynamicCastMetatypeToMetatype rt m (MetatypeMetadata t) flags =
         (if isSubclassOrEqual (wrappedClass m) (wrappedClass t) then (Inr True, [StoreMetatype m])
          else if Unconditional \<in> flags
            then (Inl (CastFailure (wrappedClass m) (wrappedClass t)), [])
          else (Inr False, []))"
  using assms
  by (auto simp: dynamicCastMetatypeToMetatype_def swift_dynamicCastMetatype_def
      swift_dynamicCastMetatypeUnconditional_def dynamicCastClassMetatype_subclass)

lemma metatype_not_class:
  assumes "getKind m \<notin> {Class, ObjCClassWrapper, ForeignClass} \<or>
           getKind t \<notin> {Class, ObjCClassWrapper, ForeignClass}"
  shows "dynamicCastMetatypeToMetatype rt m (MetatypeMetadata t) flags =
         (if m = t then (Inr True, [StoreMetatype m])
          else if Unconditional \<in> flags then (Inl (CastFailure m (wrappedClass t)), [])
          else (Inr False, []))"
proof (cases "getKind t \<in> {Class, ObjCClassWrapper, ForeignClass}")
  case False
  then have w: "wrappedClass t = t"
    by (simp add: wrappedClass_other)
  from False show ?thesis
    by (simp add: dynamicCastMetatypeToMetatype_def swift_dynamicCastMetatype_def
        swift_dynamicCastMetatypeUnconditional_def w)
next
  case True
  with assms have m: "getKind m \<notin> {Class, ObjCClassWrapper, ForeignClass}"
    by blast
  with True have ne: "m \<noteq> t"
    by auto
  have wm: "wrappedClass m = m"
    using m by (simp add: wrappedClass_other)
  show ?thesis
  proof (cases "getKind t = ForeignClass")
    case True
    then have "wrappedClass t = t"
      by (simp add: wrappedClass_other)
    with True m ne show ?thesis
      by (simp add: dynamicCastMetatypeToMetatype_def swift_dynamicCastMetatype_def
          swift_dynamicCastMetatypeUnconditional_def)
  next
    case False
    with \<open>getKind t \<in> {Class, ObjCClassWrapper, ForeignClass}\<close>
    have "getKind t = ObjCClassWrapper \<or> getKind t = Class"
      by auto
    with m ne show ?thesis
      by (simp add: dynamicCastMetatypeToMetatype_def swift_dynamicCastMetatype_def
          swift_dynamicCastMetatypeUnconditional_def)
  qed
qed


lemma metatype_foreign:
  assumes "getKind m \<in> {Class, ObjCClassWrapper, ForeignClass}"
    and "getKind t \<in> {Class, ObjCClassWrapper, ForeignClass}"
    and "getKind m = ForeignClass \<or> getKind t = ForeignClass"
  shows "dynamicCastMetatypeToMetatype rt m (MetatypeMetadata t) flags =
         (if swift_dynamicCastForeignClassMetatype rt (wrappedClass m) (wrappedClass t) \<noteq> None
          then (Inr True, [StoreMetatype m])
          else if Unconditional \<in> flags
            then (Inl (CastFailure (wrappedClass m) (wrappedClass t)), [])
          else (Inr False, []))"
proof (cases "getKind t = ForeignClass")
  case True
  then have "wrappedClass t = t"
    by (simp add: wrappedClass_other)
  with True assms(1) show ?thesis
    by (cases "swift_dynamicCastForeignClassMetatype rt (wrappedClass m) t")
       (auto simp: dynamicCastMetatypeToMetatype_def swift_dynamicCastMetatype_def
          swift_dynamicCastMetatypeUnconditional_def
          swift_dynamicCastForeignClassMetatypeUnconditional_def isNull_def)
next
  case False
  with assms have m: "getKind m = ForeignClass" and t: "getKind t = ObjCClassWrapper \<or> getKind t = Class"
    by auto
  from m have "wrappedClass m = m"
    by (simp add: wrappedClass_other)
  with m t show ?thesis
    by (cases "swift_dynamicCastForeignClassMetatype rt m (wrappedClass t)")
       (simp_all add: dynamicCastMetatypeToMetatype_def swift_dynamicCastMetatype_def
          swift_dynamicCastMetatypeUnconditional_def
          swift_dynamicCastForeignClassMetatypeUnconditional_def isNull_def)
qed

text \<open>
  C3.  A cast of a metatype value to a metatype type checks that the type the value
  describes is an instance of the target's instance type, for a conditional and for an
  unconditional cast alike.  Between two class descriptors (an Objective-C wrapper
  standing for the class it wraps) the cast stores the source metatype and succeeds
  exactly when the target class is on the superclass chain of the described class, that
  is when the described class is the target or one of its transitive subclasses.  When
  the described type or the target's instance type is not of a class kind, it succeeds
  exactly when the two descriptors are the same.  When a foreign class is on either side
  of two class kinds, it succeeds exactly when the ancestry check of foreign classes
  does.  A cast that does not succeed returns false and stores nothing, or aborts with
  the diagnostic of both types when it is unconditional.
\<close>

theorem metatype_cast_is_instance_of:
  assumes "getKind srcType \<in> {Metatype, ExistentialMetatype}" and "loadMetadata src = Some m"
  shows
    "(getKind m \<in> {Class, ObjCClassWrapper} \<and> getKind t \<in> {Class, ObjCClassWrapper} \<longrightarrow>
        swift_dynamicCast rt src srcType (MetatypeMetadata t) flags =
          (if isSubclassOrEqual (wrappedClass m) (wrappedClass t) then (Inr True, [StoreMetatype m])
           else if Unconditional \<in> flags
             then (Inl (CastFailure (wrappedClass m) (wrappedClass t)), [])
           else (Inr False, []))) \<and>
     (getKind m = Class \<and> getKind t = Class \<longrightarrow>
        swift_dynamicCast rt src srcType (MetatypeMetadata t) flags =
          (if isSubclassOrEqual m t then (Inr True, [StoreMetatype m])
           else if Unconditional \<in> flags then (Inl (CastFailure m t), [])
           else (Inr False, []))) \<and>
     (getKind m \<notin> {Class, ObjCClassWrapper, ForeignClass} \<or>
      getKind t \<notin> {Class, ObjCClassWrapper, ForeignClass} \<longrightarrow>
        swift_dynamicCast rt src srcType (MetatypeMetadata t) flags =
          (if m = t then (Inr True, [StoreMetatype m])
           else if Unconditional \<in> flags then (Inl (CastFailure m (wrappedClass t)), [])
           else (Inr False, []))) \<and>
     (getKind m \<in> {Class, ObjCClassWrapper, ForeignClass} \<and>
      getKind t \<in> {Class, ObjCClassWrapper, ForeignClass} \<and>
      (getKind m = ForeignClass \<or> getKind t = ForeignClass) \<longrightarrow>
        swift_dynamicCast rt src srcType (MetatypeMetadata t) flags =
          (if swift_dynamicCastForeignClassMetatype rt (wrappedClass m) (wrappedClass t) \<noteq> None
           then (Inr True, [StoreMetatype m])
           else if Unconditional \<in> flags
             then (Inl (CastFailure (wrappedClass m) (wrappedClass t)), [])
           else (Inr False, [])))"
proof -
  note c = cast_of_metatype_word [OF assms, of rt t flags]
  have 1: "swift_dynamicCast rt src srcType (MetatypeMetadata t) flags =
          (if isSubclassOrEqual (wrappedClass m) (wrappedClass t) then (Inr True, [StoreMetatype m])
           else if Unconditional \<in> flags
             then (Inl (CastFailure (wrappedClass m) (wrappedClass t)), [])
           else (Inr False, []))"
    if "getKind m \<in> {Class, ObjCClassWrapper} \<and> getKind t \<in> {Class, ObjCClassWrapper}"
    using that metatype_classes [of m t rt flags] c by simp
  have 2: "swift_dynamicCast rt src srcType (MetatypeMetadata t) flags =
          (if isSubclassOrEqual m t then (Inr True, [StoreMetatype m])
           else if Unconditional \<in> flags then (Inl (CastFailure m t), [])
           else (Inr False, []))"
    if "getKind m = Class \<and> getKind t = Class"
    using that 1 by (simp add: getKind_Class_wrappedClass)
  have 3: "swift_dynamicCast rt src srcType (MetatypeMetadata t) flags =
          (if m = t then (Inr True, [StoreMetatype m])
           else if Unconditional \<in> flags then (Inl (CastFailure m (wrappedClass t)), [])
           else (Inr False, []))"
    if "getKind m \<notin> {Class, ObjCClassWrapper, ForeignClass} \<or>
        getKind t \<notin> {Class, ObjCClassWrapper, ForeignClass}"
    using metatype_not_class [OF that, of rt flags] c by simp
  have 4: "swift_dynamicCast rt src srcType (MetatypeMetadata t) flags =
          (if swift_dynamicCastForeignClassMetatype rt (wrappedClass m) (wrappedClass t) \<noteq> None
           then (Inr True, [StoreMetatype m])
           else if Unconditional \<in> flags
             then (Inl (CastFailure (wrappedClass m) (wrappedClass t)), [])
           else (Inr False, []))"
    if "getKind m \<in> {Class, ObjCClassWrapper, ForeignClass} \<and>
      getKind t \<in> {Class, ObjCClassWrapper, ForeignClass} \<and>
      (getKind m = ForeignClass \<or> getKind t = ForeignClass)"
    using that metatype_foreign [of m t rt flags] c by simp
  from 1 2 3 4 show ?thesis
    by blast
qed

theorem metatype_cast_is_instance_of_witness:
  "swift_dynamicCast sampleRuntime (MetatypeValue Derived) (MetatypeMetadata Base)
     (MetatypeMetadata Base) {} = (Inr True, [StoreMetatype Derived]) \<and>
   swift_dynamicCast sampleRuntime (MetatypeValue Base) (MetatypeMetadata Base)
     (MetatypeMetadata Derived) {} = (Inr False, []) \<and>
   swift_dynamicCast sampleRuntime (MetatypeValue Base) (MetatypeMetadata Base)
     (MetatypeMetadata Derived) {Unconditional} = (Inl (CastFailure Base Derived), []) \<and>
   swift_dynamicCast sampleRuntime (MetatypeValue (StructMetadata 1))
     (MetatypeMetadata (StructMetadata 1)) (MetatypeMetadata (StructMetadata 1)) {Unconditional} =
     (Inr True, [StoreMetatype (StructMetadata 1)]) \<and>
   swift_dynamicCast sampleRuntime (MetatypeValue (StructMetadata 1))
     (MetatypeMetadata (StructMetadata 1)) (MetatypeMetadata (StructMetadata 2)) {} =
     (Inr False, []) \<and>
   swift_dynamicCast sampleRuntime (MetatypeValue (StructMetadata 1))
     (MetatypeMetadata (StructMetadata 1)) (MetatypeMetadata Base) {Unconditional} =
     (Inl (CastFailure (StructMetadata 1) Base), [])"
proof -
  have k: "getKind (MetatypeMetadata x) \<in> {Metatype, ExistentialMetatype}" for x
    by simp
  have l: "loadMetadata (MetatypeValue x) = Some x" for x
    by simp
  show ?thesis
    using
      metatype_cast_is_instance_of [OF k l, of Derived Base sampleRuntime Base "{}"]
      metatype_cast_is_instance_of [OF k l, of Base Derived sampleRuntime Base "{}"]
      metatype_cast_is_instance_of [OF k l, of Base Derived sampleRuntime Base "{Unconditional}"]
      metatype_cast_is_instance_of [OF k l, of "StructMetadata 1" "StructMetadata 1" sampleRuntime
        "StructMetadata 1" "{Unconditional}"]
      metatype_cast_is_instance_of [OF k l, of "StructMetadata 1" "StructMetadata 2" sampleRuntime
        "StructMetadata 1" "{}"]
      metatype_cast_is_instance_of [OF k l, of "StructMetadata 1" Base sampleRuntime
        "StructMetadata 1" "{Unconditional}"]
    by (simp add: Derived_def Base_def isSubclassOrEqual_def)
qed

subsection \<open>What every cast keeps\<close>

lemma initialisesDest_writesDest:
  "filter writesDest ev = [] \<Longrightarrow> filter initialisesDest ev = []"
  by (induction ev) (auto split: if_splits elim: initialisesDest.elims)

lemma initialisesDest_storeWitnessTables [simp]:
  "filter initialisesDest (storeWitnessTables ws) = []"
  by (induction ws) (auto simp: storeWitnessTables_def)

lemma released_deallocateDynamicValue [simp]: "released (deallocateDynamicValue v t) = 0"
  by (induction v t rule: deallocateDynamicValue.induct) simp_all

lemma writesDest_deallocateDynamicValue [simp]:
  "filter writesDest (deallocateDynamicValue v t) = []"
  by (induction v t rule: deallocateDynamicValue.induct) simp_all

lemma writesDest_maybeDeallocateOpaqueExistential [simp]:
  "filter writesDest (maybeDeallocateOpaqueExistential s b flags) = []"
  by (cases "shouldDeallocateSource b flags"; cases s)
     (simp_all add: maybeDeallocateOpaqueExistential_def)

lemma released_maybeDeallocateOpaqueExistential [simp]:
  "released (maybeDeallocateOpaqueExistential s b flags) = 0"
  by (cases "shouldDeallocateSource b flags"; cases s)
     (simp_all add: maybeDeallocateOpaqueExistential_def)

lemma initialisesDest_maybeDeallocateOpaqueExistential [simp]:
  "filter initialisesDest (maybeDeallocateOpaqueExistential s b flags) = []"
  by (cases "shouldDeallocateSource b flags"; cases s)
     (simp_all add: maybeDeallocateOpaqueExistential_def)

lemma contract_abort [simp]: "castContract flags e l (Inl a, ev)"
  by (simp add: castContract_def)

lemma contract_success:
  "released ev = (if TakeOnSuccess \<in> flags then 1 else 0) \<Longrightarrow> castContract flags e l (Inr True, ev)"
  by (simp add: castContract_def shouldDeallocateSource_def)

lemma contract_failure:
  "Unconditional \<notin> flags \<Longrightarrow> filter writesDest ev = [] \<Longrightarrow>
   released ev = (if DestroyOnFailure \<in> flags then 1 else 0) \<Longrightarrow>
   castContract flags e l (Inr False, ev)"
  by (simp add: castContract_def shouldDeallocateSource_def initialisesDest_writesDest)

lemma contract_metatype:
  "e \<Longrightarrow> released ev = 0 \<Longrightarrow>
   (\<not> b \<longrightarrow> Unconditional \<notin> flags \<and> filter writesDest ev = []) \<Longrightarrow>
   castContract flags e l (Inr b, ev)"
  by (auto simp: castContract_def initialisesDest_writesDest)

lemma contract_fail: "castContract flags e l (fail s st tt' flags d)"
  by (simp add: castContract_def fail_def shouldDeallocateSource_def)

lemma contract_succeed: "castContract flags e l (succeed s st flags)"
  by (simp add: castContract_def succeed_def shouldDeallocateSource_def)

lemma contract_withEvents:
  "castContract flags e l r \<Longrightarrow> filter initialisesDest ev = [] \<Longrightarrow> released ev = 0
     \<Longrightarrow> l \<or> filter writesDest ev = [] \<Longrightarrow> castContract flags e l (withEvents ev r)"
  by (cases r) (auto simp: castContract_def withEvents_def split: sum.splits)

lemma contract_husk:
  "castContract flags e l (Inr b, ev) \<Longrightarrow> filter writesDest extra = [] \<Longrightarrow>
   released extra = 0 \<Longrightarrow> castContract flags e l (Inr b, ev @ extra)"
  by (auto simp: castContract_def initialisesDest_writesDest)

lemma contract_borrowed:
  "castContract (flags - {TakeOnSuccess, DestroyOnFailure}) e l (Inr b, ev) \<Longrightarrow>
   castContract flags e l
     (Inr b, ev @ (if shouldDeallocateSource b flags then [Vw_destroy t s] else []))"
  by (auto simp: castContract_def shouldDeallocateSource_def)

lemma contract_borrowed_destroy:
  "castContract (flags - {TakeOnSuccess, DestroyOnFailure}) e l (Inr b, ev) \<Longrightarrow>
   shouldDeallocateSource b flags \<Longrightarrow>
   castContract flags e l (Inr b, ev @ [Vw_destroy t s])"
  using contract_borrowed [of flags e l b ev t s] by simp

lemma contract_borrowed_keep:
  "castContract (flags - {TakeOnSuccess, DestroyOnFailure}) e l (Inr b, ev) \<Longrightarrow>
   \<not> shouldDeallocateSource b flags \<Longrightarrow> castContract flags e l (Inr b, ev)"
  using contract_borrowed [of flags e l b ev] by simp

lemma contract_Optional:
  "castContract flags e l r \<Longrightarrow>
   castContract flags e l
     (case r of (Inr True, ev') \<Rightarrow> (Inr True, ev' @ [Swift_storeEnumTagSinglePayload p' c])
      | r \<Rightarrow> r)"
  by (cases r) (auto simp: castContract_def split: sum.splits bool.splits)

lemma contract_dynamicCastUnknownClassIndirect:
  "castContract flags e l (dynamicCastUnknownClassIndirect object tt' flags)"
  by (auto simp: dynamicCastUnknownClassIndirect_def intro!: contract_success contract_failure
      split: sum.splits option.splits)

lemma contract_dynamicCastToExistential:
  "castContract flags e True (dynamicCastToExistential rt src srcType tt' flags)"
proof (cases tt')
  case (ExistentialTypeMetadata rep ps)
  show ?thesis
  proof (cases "findDynamicValueAndType rt True src srcType True")
    case (Inl a)
    then show ?thesis
      by (simp add: dynamicCastToExistential_def ExistentialTypeMetadata)
  next
    case (Inr x)
    obtain atSrc dv dt canTake where x: "x = (atSrc, dv, dt, canTake)"
      by (cases x) auto
    obtain c ws where c: "conformsToProtocols rt dt ps 0 = (c, ws)"
      by (cases "conformsToProtocols rt dt ps 0") auto
    note f = contract_fail [of flags e True src srcType tt' None]
      contract_fail [of flags e True src srcType tt' "Some dt"]
    note fw = contract_withEvents [OF f(2), of "storeWitnessTables ws"]
    show ?thesis
    proof (cases c)
      case (Inl a)
      then show ?thesis
        using f unfolding ExistentialTypeMetadata
        by (cases rep) (simp_all add: dynamicCastToExistential_def Let_def Inr x c)
    next
      case cr: (Inr b)
      show ?thesis
      proof (cases b)
        case False
        then show ?thesis
          using f fw unfolding ExistentialTypeMetadata
          by (cases rep) (simp_all add: dynamicCastToExistential_def Let_def Inr x c cr)
      next
        case True
        then show ?thesis
          using f unfolding ExistentialTypeMetadata
          by (cases rep)
             (auto simp: dynamicCastToExistential_def Let_def Inr x c cr
                shouldDeallocateSource_def intro!: contract_success split: option.splits)
      qed
    qed
  qed
qed (simp_all add: dynamicCastToExistential_def)


lemma describesMetatype_kind:
  "getKind t \<in> {Metatype, ExistentialMetatype} \<Longrightarrow> describesMetatype v t"
  by (cases t) simp_all

lemma contract_dynamicCastMetatypeToMetatype:
  "castContract flags True l (dynamicCastMetatypeToMetatype rt m tt' flags)"
  by (auto simp: dynamicCastMetatypeToMetatype_def intro!: contract_metatype
      split: Metadata.splits sum.splits option.splits)

lemma contract_dynamicCastUnknownClassToMetatype:
  "castContract flags e l (dynamicCastUnknownClassToMetatype rt object tt' flags)"
  by (auto simp: dynamicCastUnknownClassToMetatype_def getUnknownClassAsMetatype_def
      intro!: contract_failure)

lemma contract_dynamicCastToMetatype:
  "castContract flags (describesMetatype src srcType) l (dynamicCastToMetatype rt src srcType tt' flags)"
proof (induction rt src srcType tt' flags rule: dynamicCastToMetatype.induct)
  case (1 rt src srcType targetType flags)
  note m = contract_dynamicCastMetatypeToMetatype
    contract_dynamicCastUnknownClassToMetatype contract_fail
  show ?case
  proof (cases "getKind srcType \<in> {Metatype, ExistentialMetatype, Class, ObjCClassWrapper, ForeignClass}")
    case True
    then show ?thesis
      by (subst dynamicCastToMetatype.simps)
         (auto simp: m describesMetatype_kind split: option.splits)
  next
    case False
    show ?thesis
    proof (cases srcType)
      case (ExistentialTypeMetadata rep ps)
      show ?thesis
      proof (cases rep)
        case RepClass
        then show ?thesis
          using False ExistentialTypeMetadata
          by (subst dynamicCastToMetatype.simps) (auto simp: m split: OpaqueValue.splits)
      next
        case RepOpaque
        show ?thesis
        proof (cases src)
          case (OpaqueExistentialContainer vt v ws)
          have ih: "castContract flags (describesMetatype v vt) l
                      (dynamicCastToMetatype rt v vt targetType flags)"
            using 1(1) [OF _ _ ExistentialTypeMetadata RepOpaque OpaqueExistentialContainer] False
            by simp
          show ?thesis
            using ih False ExistentialTypeMetadata RepOpaque OpaqueExistentialContainer
            by (subst dynamicCastToMetatype.simps)
               (auto simp: contract_husk split: prod.splits sum.splits)
        qed (use False ExistentialTypeMetadata RepOpaque in
              \<open>subst dynamicCastToMetatype.simps, simp\<close>)+
      next
        case RepErrorProtocol
        show ?thesis
        proof (cases src)
          case (SwiftErrorBox vt v ws)
          have ih: "castContract (flags - {TakeOnSuccess, DestroyOnFailure}) (describesMetatype v vt) l
                      (dynamicCastToMetatype rt v vt targetType (flags - {TakeOnSuccess, DestroyOnFailure}))"
            using 1(2) [OF _ _ ExistentialTypeMetadata RepErrorProtocol SwiftErrorBox refl] False
            by simp
          show ?thesis
            using ih False ExistentialTypeMetadata RepErrorProtocol SwiftErrorBox
            by (subst dynamicCastToMetatype.simps)
               (auto simp: Let_def intro: contract_borrowed_destroy contract_borrowed_keep
                  split: prod.splits sum.splits)
        qed (use False ExistentialTypeMetadata RepErrorProtocol in
              \<open>subst dynamicCastToMetatype.simps, simp\<close>)+
      qed
    qed (use False in \<open>subst dynamicCastToMetatype.simps, simp add: m\<close>)+
  qed
qed


lemma contract_quiet:
  "released (snd r) = 0 \<and> filter initialisesDest (snd r) = [] \<and>
   (Unconditional \<in> flags \<longrightarrow> fst r \<noteq> Inr False) \<Longrightarrow>
   castContract flags True True r"
  by (auto simp: castContract_def split: sum.splits)

lemma quiet_existentialMetatypeConformances:
  "released (snd (existentialMetatypeConformances rt m t ps flags w slot)) = 0 \<and>
   filter initialisesDest (snd (existentialMetatypeConformances rt m t ps flags w slot)) = [] \<and>
   (Unconditional \<in> flags \<longrightarrow>
      fst (existentialMetatypeConformances rt m t ps flags w slot) \<noteq> Inr False)"
  by (induction ps arbitrary: slot)
     (auto simp: withEvents_def split: sum.splits prod.splits option.splits)

lemma quiet_dynamicCastMetatypeToExistentialMetatype:
  "released (snd (dynamicCastMetatypeToExistentialMetatype rt m t flags w)) = 0 \<and>
   filter initialisesDest (snd (dynamicCastMetatypeToExistentialMetatype rt m t flags w)) = [] \<and>
   (Unconditional \<in> flags \<longrightarrow>
      fst (dynamicCastMetatypeToExistentialMetatype rt m t flags w) \<noteq> Inr False)"
proof (induction rt m t flags w rule: dynamicCastMetatypeToExistentialMetatype.induct)
  case (1 rt srcMetatype representation protocols flags writeDestMetatype)
  show ?case
    using quiet_existentialMetatypeConformances [of rt srcMetatype
        "ExistentialMetatypeMetadata (ExistentialTypeMetadata representation protocols)"
        protocols flags writeDestMetatype 0]
    by (auto split: prod.splits sum.splits bool.splits)
next
  case (2 rt srcMetatype targetInstanceInstanceType flags writeDestMetatype)
  then show ?case
    by (cases srcMetatype) (auto simp: withEvents_def)
qed simp_all

lemma contract_dynamicCastUnknownClassToExistentialMetatype:
  "castContract flags e l (dynamicCastUnknownClassToExistentialMetatype rt object tt' flags)"
  by (auto simp: dynamicCastUnknownClassToExistentialMetatype_def getUnknownClassAsMetatype_def
      intro!: contract_failure)

lemma contract_dynamicCastToExistentialMetatype:
  "castContract flags (describesMetatype src srcType) True
     (dynamicCastToExistentialMetatype rt src srcType tt' flags)"
proof (induction rt src srcType tt' flags rule: dynamicCastToExistentialMetatype.induct)
  case (1 rt src srcType targetType flags)
  note m = contract_quiet [OF quiet_dynamicCastMetatypeToExistentialMetatype]
    contract_dynamicCastUnknownClassToExistentialMetatype contract_fail
  show ?case
  proof (cases "getKind srcType \<in> {Metatype, ExistentialMetatype, Class, ObjCClassWrapper, ForeignClass}")
    case True
    then show ?thesis
      by (subst dynamicCastToExistentialMetatype.simps)
         (auto simp: m describesMetatype_kind split: option.splits)
  next
    case False
    show ?thesis
    proof (cases srcType)
      case (ExistentialTypeMetadata rep ps)
      show ?thesis
      proof (cases rep)
        case RepClass
        then show ?thesis
          using False ExistentialTypeMetadata
          by (subst dynamicCastToExistentialMetatype.simps) (auto simp: m split: OpaqueValue.splits)
      next
        case RepOpaque
        show ?thesis
        proof (cases src)
          case (OpaqueExistentialContainer vt v ws)
          have ih: "castContract flags (describesMetatype v vt) True
                      (dynamicCastToExistentialMetatype rt v vt targetType flags)"
            using 1(1) [OF _ _ ExistentialTypeMetadata RepOpaque OpaqueExistentialContainer] False
            by simp
          show ?thesis
            using ih False ExistentialTypeMetadata RepOpaque OpaqueExistentialContainer
            by (subst dynamicCastToExistentialMetatype.simps)
               (auto simp: contract_husk split: prod.splits sum.splits)
        qed (use False ExistentialTypeMetadata RepOpaque in
              \<open>subst dynamicCastToExistentialMetatype.simps, simp\<close>)+
      next
        case RepErrorProtocol
        show ?thesis
        proof (cases src)
          case (SwiftErrorBox vt v ws)
          have ih: "castContract (flags - {TakeOnSuccess, DestroyOnFailure}) (describesMetatype v vt) True
                      (dynamicCastToExistentialMetatype rt v vt targetType
                         (flags - {TakeOnSuccess, DestroyOnFailure}))"
            using 1(2) [OF _ _ ExistentialTypeMetadata RepErrorProtocol SwiftErrorBox refl] False
            by simp
          show ?thesis
            using ih False ExistentialTypeMetadata RepErrorProtocol SwiftErrorBox
            by (subst dynamicCastToExistentialMetatype.simps)
               (auto simp: Let_def intro: contract_borrowed_destroy contract_borrowed_keep
                  split: prod.splits sum.splits)
        qed (use False ExistentialTypeMetadata RepErrorProtocol in
              \<open>subst dynamicCastToExistentialMetatype.simps, simp\<close>)+
      qed
    qed (use False in \<open>subst dynamicCastToExistentialMetatype.simps, simp add: m\<close>)+
  qed
qed

lemma describesMetatype_other:
  "getKind t \<notin> {Metatype, ExistentialMetatype, Optional, Existential} \<Longrightarrow>
   \<not> describesMetatype v t"
  by (cases t) simp_all

lemma contract_checkDynamicCastFromOptional:
  assumes "checkDynamicCastFromOptional rt src srcType tt flags = (Inr (OptionalCastResult s po), ev)"
  shows "case po of
           None \<Rightarrow> castContract flags False (getKind tt = Existential) (Inr s, ev)
         | Some p \<Rightarrow> filter initialisesDest ev = [] \<and> released ev = 0 \<and>
             (getKind tt = Existential \<or> ev = []) \<and>
             describesMetatype (payloadOf srcType src) p = describesMetatype src srcType"
proof (cases srcType)
  case (OptionalMetadata payloadType)
  define inspectCase where "inspectCase =
     (case swift_getEnumCaseSinglePayload src of
        None \<Rightarrow> (Inl Undefined, [])
      | Some enumCase \<Rightarrow>
          if enumCase \<noteq> - 1 then
            (if getKind tt \<noteq> Optional then
               (case fail src (OptionalMetadata payloadType) tt flags None of
                  (Inl a, ev) \<Rightarrow> (Inl a, ev)
                | (Inr _, ev) \<Rightarrow> (Inr (OptionalCastResult False None), ev))
             else
               (Inr (OptionalCastResult True None),
                Swift_storeEnumTagSinglePayload payloadType enumCase #
                snd (succeed src (OptionalMetadata payloadType) flags)))
          else (Inr (OptionalCastResult False (Some payloadType)), []))"
  have inspect: "case po' of
           None \<Rightarrow> castContract flags False False (Inr s', ev')
         | Some p \<Rightarrow> ev' = [] \<and>
             describesMetatype (payloadOf srcType src) p = describesMetatype src srcType"
    if "inspectCase = (Inr (OptionalCastResult s' po'), ev')" for s' po' ev'
    using that unfolding inspectCase_def OptionalMetadata
    by (cases src)
       (auto simp: fail_def succeed_def intro!: contract_success contract_failure
          split: option.splits if_splits)
  show ?thesis
  proof (cases "getKind tt = Existential")
    case False
    then have "checkDynamicCastFromOptional rt src srcType tt flags = inspectCase"
      by (simp add: checkDynamicCastFromOptional_def OptionalMetadata inspectCase_def)
    with assms inspect [of s po ev] False show ?thesis
      by (auto split: option.splits)
  next
    case True
    let ?f = "flags - {Unconditional, DestroyOnFailure}"
    obtain x ev0 where a: "dynamicCastToExistential rt src srcType tt ?f = (x, ev0)"
      by (cases "dynamicCastToExistential rt src srcType tt ?f") auto
    have c: "castContract ?f False True (x, ev0)"
      using contract_dynamicCastToExistential [of ?f False rt src srcType tt] a by simp
    have chk: "checkDynamicCastFromOptional rt src srcType tt flags =
       (case x of Inl a \<Rightarrow> (Inl a, ev0)
        | Inr True \<Rightarrow> (Inr (OptionalCastResult True None), ev0)
        | Inr False \<Rightarrow> withEvents ev0 inspectCase)"
      using True a
      by (simp add: checkDynamicCastFromOptional_def OptionalMetadata inspectCase_def
          split: sum.splits bool.splits)
    show ?thesis
    proof (cases x)
      case (Inl e)
      with chk assms show ?thesis by simp
    next
      case (Inr b)
      show ?thesis
      proof (cases b)
        case True
        with Inr chk assms c \<open>getKind tt = Existential\<close>
        show ?thesis
          by (auto simp: castContract_def shouldDeallocateSource_def)
      next
        case False
        have q: "filter initialisesDest ev0 = []" "released ev0 = 0"
          using c Inr False
          by (auto simp: castContract_def shouldDeallocateSource_def)
        obtain y ev1 where i: "inspectCase = (y, ev1)"
          by (cases inspectCase) auto
        from chk Inr False i assms have y: "y = Inr (OptionalCastResult s po)" "ev = ev0 @ ev1"
          by (auto simp: withEvents_def)
        from inspect [of s po ev1] i y q True show ?thesis
          by (auto simp: castContract_def split: option.splits)
      qed
    qed
  qed
qed (use assms in \<open>auto simp: checkDynamicCastFromOptional_def\<close>)

lemma containerDepth_capturedValue:
  "capturedValue rt rep src = Some (v, t, outOfLine, c) \<Longrightarrow> containerDepth v < containerDepth src"
  by (cases "(rt, rep, src)" rule: capturedValue.cases) auto

lemma describesMetatype_capturedValue:
  "capturedValue rt rep src = Some (v, t, outOfLine, c) \<Longrightarrow>
   describesMetatype src (ExistentialTypeMetadata rep ps) = describesMetatype v t"
  by (cases "(rt, rep, src)" rule: capturedValue.cases) auto

lemma containerDepth_payloadOf: "containerDepth (payloadOf t v) \<le> containerDepth v"
  by (cases "(t, v)" rule: payloadOf.cases) auto

lemma contract_weaken:
  "castContract flags e l r \<Longrightarrow> (e \<longrightarrow> e') \<Longrightarrow> (l \<longrightarrow> l') \<Longrightarrow> castContract flags e' l' r"
  by (auto simp: castContract_def split: sum.splits)

lemma isExistentialTarget_kind: "getKind t = Existential \<Longrightarrow> isExistentialTarget t"
  by (cases t) simp_all

lemma contract_dynamicCastFromExistential:
  assumes "\<And>v t f. containerDepth v < containerDepth src \<Longrightarrow>
             castContract f (m \<and> describesMetatype v t) l (swift_dynamicCast rt v t targetType f)"
  shows "castContract flags (m \<and> describesMetatype src srcType) l
           (dynamicCastFromExistential rt src srcType targetType flags)"
proof (cases srcType)
  case (ExistentialTypeMetadata rep ps)
  show ?thesis
  proof (cases "capturedValue rt rep src")
    case None
    then show ?thesis
      by (subst dynamicCastFromExistential.simps) (simp add: ExistentialTypeMetadata)
  next
    case (Some a)
    obtain v t outOfLine c where a: "a = (v, t, outOfLine, c)"
      by (cases a) auto
    note d = containerDepth_capturedValue [OF Some [unfolded a]]
    note dm = describesMetatype_capturedValue [OF Some [unfolded a], of ps]
    show ?thesis
    proof (cases c)
      case True
      obtain x ev where r: "swift_dynamicCast rt v t targetType flags = (x, ev)"
        by (cases "swift_dynamicCast rt v t targetType flags") auto
      have "castContract flags (m \<and> describesMetatype v t) l (x, ev)"
        using assms [OF d, of flags t] r by simp
      then show ?thesis
        unfolding ExistentialTypeMetadata dm
        by (subst dynamicCastFromExistential.simps)
           (auto simp: Some a True r contract_husk split: sum.splits)
    next
      case False
      have eq: "flags - {DestroyOnFailure, TakeOnSuccess} = flags - {TakeOnSuccess, DestroyOnFailure}"
        by auto
      obtain x ev where r: "swift_dynamicCast rt v t targetType
          (flags - {TakeOnSuccess, DestroyOnFailure}) = (x, ev)"
        by (cases "swift_dynamicCast rt v t targetType (flags - {TakeOnSuccess, DestroyOnFailure})") auto
      have "castContract (flags - {TakeOnSuccess, DestroyOnFailure}) (m \<and> describesMetatype v t) l (x, ev)"
        using assms [OF d, of "flags - {TakeOnSuccess, DestroyOnFailure}" t] r by simp
      then show ?thesis
        unfolding ExistentialTypeMetadata dm
        by (subst dynamicCastFromExistential.simps)
           (auto simp: Some a False r eq
              intro: contract_borrowed_destroy contract_borrowed_keep split: sum.splits)
    qed
  qed
qed (subst dynamicCastFromExistential.simps, simp)+

lemma contract_dynamicCastToUnknownClassFromExistential:
  assumes "\<And>v t f. containerDepth v < containerDepth src \<Longrightarrow>
             castContract f False l (swift_dynamicCast rt v t targetType f)"
  shows "castContract flags False l
           (dynamicCastToUnknownClassFromExistential rt src srcType targetType flags)"
proof (cases srcType)
  case (ExistentialTypeMetadata rep ps)
  show ?thesis
  proof (cases rep)
    case RepClass
    then show ?thesis
      by (subst dynamicCastToUnknownClassFromExistential.simps)
         (auto simp: ExistentialTypeMetadata contract_dynamicCastUnknownClassIndirect
            split: OpaqueValue.splits)
  next
    case RepOpaque
    show ?thesis
    proof (cases src)
      case (OpaqueExistentialContainer t v ws)
      obtain x ev where r: "swift_dynamicCast rt v t targetType flags = (x, ev)"
        by (cases "swift_dynamicCast rt v t targetType flags") auto
      have "castContract flags False l (x, ev)"
        using assms [of v flags t] r OpaqueExistentialContainer by simp
      then show ?thesis
        by (subst dynamicCastToUnknownClassFromExistential.simps)
           (auto simp: ExistentialTypeMetadata RepOpaque OpaqueExistentialContainer r contract_husk
              split: sum.splits)
    qed (subst dynamicCastToUnknownClassFromExistential.simps,
         simp add: ExistentialTypeMetadata RepOpaque)+
  next
    case RepErrorProtocol
    show ?thesis
    proof (cases src)
      case (SwiftErrorBox t v ws)
      obtain x ev where r: "swift_dynamicCast rt v t targetType
          (flags - {TakeOnSuccess, DestroyOnFailure}) = (x, ev)"
        by (cases "swift_dynamicCast rt v t targetType (flags - {TakeOnSuccess, DestroyOnFailure})") auto
      have "castContract (flags - {TakeOnSuccess, DestroyOnFailure}) False l (x, ev)"
        using assms [of v "flags - {TakeOnSuccess, DestroyOnFailure}" t] r SwiftErrorBox by simp
      then show ?thesis
        by (subst dynamicCastToUnknownClassFromExistential.simps)
           (auto simp: ExistentialTypeMetadata RepErrorProtocol SwiftErrorBox r Let_def
              intro: contract_borrowed_destroy contract_borrowed_keep split: sum.splits)
    qed (subst dynamicCastToUnknownClassFromExistential.simps,
         simp add: ExistentialTypeMetadata RepErrorProtocol)+
  qed
qed (subst dynamicCastToUnknownClassFromExistential.simps, simp)+

lemma contract_dynamicCastToFunction:
  assumes "\<And>v t f. containerDepth v < containerDepth src \<Longrightarrow>
             castContract f False l (swift_dynamicCast rt v t targetType f)"
  shows "castContract flags False l (dynamicCastToFunction rt src srcType targetType flags)"
proof (cases "srcType = targetType")
  case True
  then show ?thesis
    by (subst dynamicCastToFunction.simps) (simp add: contract_succeed)
next
  case False
  have "castContract f (False \<and> describesMetatype v t) l (swift_dynamicCast rt v t targetType f)"
    if "containerDepth v < containerDepth src" for v t f
    using assms [OF that] by simp
  note e = contract_dynamicCastFromExistential [OF this, of _ flags, simplified]
  show ?thesis
    using False
    by (cases srcType; subst dynamicCastToFunction.simps;
        simp add: contract_succeed contract_fail e split: Metadata.splits)
qed

lemma contract_swift_dynamicCast:
  "castContract flags (isMetatypeTarget targetType \<and> describesMetatype src srcType)
     (isExistentialTarget targetType) (swift_dynamicCast rt src srcType targetType flags)"
proof (induction "containerDepth src + size targetType"
    arbitrary: src srcType targetType flags rule: less_induct)
  case less
  have ih: "castContract f (isMetatypeTarget t \<and> describesMetatype v vt) (isExistentialTarget t)
              (swift_dynamicCast rt v vt t f)"
    if "containerDepth v + size t < containerDepth src + size targetType" for v vt t f
    using less [OF that] .
  let ?src = "payloadOf srcType src"
  have inner: "castContract f (isMetatypeTarget targetType \<and> describesMetatype v t)
                 (isExistentialTarget targetType) (swift_dynamicCast rt v t targetType f)"
    if "containerDepth v < containerDepth ?src" for v t f
    using ih [of v targetType f t] that containerDepth_payloadOf [of srcType src] by simp
  have inner': "castContract f False (isExistentialTarget targetType)
                  (swift_dynamicCast rt v t targetType f)"
    if "containerDepth v < containerDepth ?src" "\<not> isMetatypeTarget targetType" for v t f
    using inner [OF that(1), of f t] that(2) by simp
  obtain x ev where chk: "checkDynamicCastFromOptional rt src srcType targetType flags = (x, ev)"
    by (cases "checkDynamicCastFromOptional rt src srcType targetType flags") auto
  show ?case
  proof (cases x)
    case (Inl a)
    then show ?thesis
      by (subst swift_dynamicCast.simps) (simp add: chk)
  next
    case (Inr u)
    obtain s po where u: "u = OptionalCastResult s po"
      by (cases u) auto
    note c = contract_checkDynamicCastFromOptional [OF chk [unfolded Inr u]]
    show ?thesis
    proof (cases po)
      case None
      with c show ?thesis
        by (subst swift_dynamicCast.simps)
           (auto simp: chk Inr u isExistentialTarget_kind elim: contract_weaken)
    next
      case (Some p)
      have q: "filter initialisesDest ev = []" "released ev = 0"
        "isExistentialTarget targetType \<or> filter writesDest ev = []"
        and dm: "describesMetatype src srcType = describesMetatype ?src p"
        using c Some by (auto simp: isExistentialTarget_kind)
      note fe = contract_dynamicCastFromExistential [of ?src "isMetatypeTarget targetType"
          "isExistentialTarget targetType" rt targetType flags p, OF inner]
      have fu: "\<not> isMetatypeTarget targetType \<Longrightarrow>
          castContract flags False (isExistentialTarget targetType)
            (dynamicCastToUnknownClassFromExistential rt ?src p targetType flags)"
        using contract_dynamicCastToUnknownClassFromExistential [of ?src
            "isExistentialTarget targetType" rt targetType flags p]
          inner' by blast
      have ff: "\<not> isMetatypeTarget targetType \<Longrightarrow>
          castContract flags False (isExistentialTarget targetType)
            (dynamicCastToFunction rt ?src p targetType flags)"
        using contract_dynamicCastToFunction [of ?src "isExistentialTarget targetType"
            rt targetType flags p] inner' by blast
      have opt: "castContract flags (isMetatypeTarget pt \<and> describesMetatype ?src p)
          (isExistentialTarget pt)
          (case swift_dynamicCast rt ?src p pt flags of
             (Inr True, ev') \<Rightarrow> (Inr True, ev' @ [Swift_storeEnumTagSinglePayload pt (- 1)])
           | r \<Rightarrow> r)" if "targetType = OptionalMetadata pt" for pt
        using ih [of ?src pt flags p] that containerDepth_payloadOf [of srcType src]
        by (intro contract_Optional) simp
      note known = contract_dynamicCastToExistential contract_dynamicCastToMetatype
        contract_dynamicCastToExistentialMetatype contract_dynamicCastUnknownClassIndirect
        contract_fail contract_succeed
      show ?thesis
        unfolding dm
        using fe fu ff opt
        apply (subst swift_dynamicCast.simps)
        apply (simp only: chk Inr u Some prod.case sum.case option.case
            OptionalCastResult.sel Let_def)
        apply (rule contract_withEvents [OF _ q])
        apply (cases targetType; simp add: known split: option.splits)
        done
    qed
  qed
qed


text \<open>The equations that evaluate a cast of sample values.\<close>

lemmas cast_evaluation =
  swift_dynamicCast.simps dynamicCastFromExistential.simps
  dynamicCastToUnknownClassFromExistential.simps dynamicCastToFunction.simps
  dynamicCastToMetatype.simps dynamicCastToExistentialMetatype.simps
  findDynamicValueAndType.simps checkDynamicCastFromOptional_def
  dynamicCastToExistential_def dynamicCastMetatypeToMetatype_def
  dynamicCastUnknownClassIndirect_def swift_dynamicCastUnknownClass_def
  swift_dynamicCastUnknownClassUnconditional_def swift_dynamicCastClass_def
  swift_dynamicCastClassUnconditional_def swift_dynamicCastMetatype_def
  swift_dynamicCastMetatypeUnconditional_def conformsToProtocol_def
  storeWitnessTables_def withEvents_def fail_def succeed_def isNull_def
  shouldDeallocateSource_def sampleRuntime_def sampleProtocol_def Let_def

subsection \<open>The unconditional cast\<close>

lemma unconditionalOf_same [simp]: "unconditionalOf (Inl a, ev) (Inl a, ev)"
  "unconditionalOf (Inr True, ev) (Inr True, ev)"
  by (simp_all add: unconditionalOf_def)

lemma unconditionalOf_refl: "fst r \<noteq> Inr False \<Longrightarrow> unconditionalOf r r"
  by (simp add: unconditionalOf_def)

lemma unconditionalOf_failure [simp]:
  "unconditionalOf (Inr False, ev) (Inl (CastFailure s t), ev')"
  by (simp add: unconditionalOf_def)

lemma shouldDeallocateSource_Unconditional [simp]:
  "shouldDeallocateSource b (insert Unconditional flags) = shouldDeallocateSource b flags"
  by (simp add: shouldDeallocateSource_def)

lemma maybeDeallocateOpaqueExistential_Unconditional [simp]:
  "maybeDeallocateOpaqueExistential s b (insert Unconditional flags) =
   maybeDeallocateOpaqueExistential s b flags"
  by (simp add: maybeDeallocateOpaqueExistential_def)

lemma succeed_Unconditional [simp]:
  "succeed s st (insert Unconditional flags) = succeed s st flags"
  by (simp add: succeed_def)

lemma unconditionalOf_fail:
  "Unconditional \<notin> flags \<Longrightarrow>
   unconditionalOf (fail s st tt flags d) (fail s st tt (insert Unconditional flags) d)"
  by (simp add: fail_def)

lemma unconditionalOf_withEvents:
  "unconditionalOf rc ru \<Longrightarrow> unconditionalOf (withEvents ev rc) (withEvents ev ru)"
  by (auto simp: unconditionalOf_def withEvents_def split: if_splits)

lemma unconditionalOf_Optional:
  "unconditionalOf rc ru \<Longrightarrow>
   unconditionalOf
     (case rc of (Inr True, ev') \<Rightarrow> (Inr True, ev' @ tag) | r \<Rightarrow> r)
     (case ru of (Inr True, ev') \<Rightarrow> (Inr True, ev' @ tag) | r \<Rightarrow> r)"
  by (cases rc; cases ru)
     (auto simp: unconditionalOf_def split: if_splits sum.splits bool.splits)

lemma unconditionalOf_cleanup:
  "unconditionalOf rc ru \<Longrightarrow> (\<And>result. extra' result = extra result) \<Longrightarrow>
   unconditionalOf
     (case rc of (Inl a, ev) \<Rightarrow> (Inl a, ev) | (Inr result, ev) \<Rightarrow> (Inr result, ev @ extra result))
     (case ru of (Inl a, ev) \<Rightarrow> (Inl a, ev) | (Inr result, ev) \<Rightarrow> (Inr result, ev @ extra' result))"
  by (cases rc; cases ru)
     (auto simp: unconditionalOf_def split: if_splits sum.splits bool.splits)

lemma unconditionalOf_dynamicCastUnknownClassIndirect:
  "Unconditional \<notin> flags \<Longrightarrow>
   unconditionalOf (dynamicCastUnknownClassIndirect object tt flags)
     (dynamicCastUnknownClassIndirect object tt (insert Unconditional flags))"
  by (cases tt)
     (auto simp: dynamicCastUnknownClassIndirect_def swift_dynamicCastUnknownClass_def
        swift_dynamicCastUnknownClassUnconditional_def swift_dynamicCastClassUnconditional_def
        split: option.splits)

lemma unconditionalOf_dynamicCastToExistential:
  assumes "Unconditional \<notin> flags"
  shows "unconditionalOf (dynamicCastToExistential rt src srcType tt flags)
           (dynamicCastToExistential rt src srcType tt (insert Unconditional flags))"
proof (cases tt)
  case (ExistentialTypeMetadata rep ps)
  show ?thesis
  proof (cases "findDynamicValueAndType rt True src srcType True")
    case (Inl a)
    then show ?thesis
      by (simp add: dynamicCastToExistential_def ExistentialTypeMetadata)
  next
    case (Inr x)
    obtain atSrc dv dt canTake where x: "x = (atSrc, dv, dt, canTake)"
      by (cases x) auto
    obtain c ws where c: "conformsToProtocols rt dt ps 0 = (c, ws)"
      by (cases "conformsToProtocols rt dt ps 0") auto
    note f = unconditionalOf_fail [OF assms, of src srcType tt None]
      unconditionalOf_fail [OF assms, of src srcType tt "Some dt"]
    note fw = unconditionalOf_withEvents [OF f(2), of "storeWitnessTables ws"]
    show ?thesis
    proof (cases c)
      case (Inl a)
      then show ?thesis
        using f unfolding ExistentialTypeMetadata
        by (cases rep) (simp_all add: dynamicCastToExistential_def Let_def Inr x c)
    next
      case cr: (Inr b)
      show ?thesis
      proof (cases b)
        case False
        then show ?thesis
          using f fw unfolding ExistentialTypeMetadata
          by (cases rep) (simp_all add: dynamicCastToExistential_def Let_def Inr x c cr)
      next
        case True
        then show ?thesis
          using f assms unfolding ExistentialTypeMetadata
          by (cases rep)
             (auto simp: dynamicCastToExistential_def Let_def Inr x c cr split: option.splits)
      qed
    qed
  qed
qed (simp_all add: dynamicCastToExistential_def)

lemma swift_dynamicCastMetatypeUnconditional_agrees:
  "case swift_dynamicCastMetatype rt m t of
     Some r \<Rightarrow> swift_dynamicCastMetatypeUnconditional rt m t = Inr r
   | None \<Rightarrow> isCastFailure (swift_dynamicCastMetatypeUnconditional rt m t)"
proof (cases "getKind t = ObjCClassWrapper \<or> getKind t = Class")
  case True
  then show ?thesis
    by (cases "getKind m = ObjCClassWrapper \<or> getKind m = Class"; cases "getKind m = ForeignClass")
       (auto simp: swift_dynamicCastMetatype_def swift_dynamicCastMetatypeUnconditional_def
          swift_dynamicCastForeignClassMetatypeUnconditional_def isNull_def Let_def
          split: option.splits)
next
  case False
  then show ?thesis
    by (cases "getKind t = ForeignClass")
       (auto simp: swift_dynamicCastMetatype_def swift_dynamicCastMetatypeUnconditional_def
          swift_dynamicCastForeignClassMetatypeUnconditional_def isNull_def Let_def
          split: option.splits)
qed

lemma unconditionalOf_dynamicCastMetatypeToMetatype:
  "Unconditional \<notin> flags \<Longrightarrow>
   unconditionalOf (dynamicCastMetatypeToMetatype rt m tt flags)
     (dynamicCastMetatypeToMetatype rt m tt (insert Unconditional flags))"
proof (cases tt)
  case (MetatypeMetadata t)
  assume "Unconditional \<notin> flags"
  then show ?thesis
    using swift_dynamicCastMetatypeUnconditional_agrees [of rt m t]
    by (cases "swift_dynamicCastMetatypeUnconditional rt m t")
       (auto simp: dynamicCastMetatypeToMetatype_def MetatypeMetadata split: option.splits
          elim: isCastFailure.elims)
qed (simp_all add: dynamicCastMetatypeToMetatype_def)


lemma unconditionalOf_dynamicCastUnknownClassToMetatype:
  "Unconditional \<notin> flags \<Longrightarrow>
   unconditionalOf (dynamicCastUnknownClassToMetatype rt object tt flags)
     (dynamicCastUnknownClassToMetatype rt object tt (insert Unconditional flags))"
  by (simp add: dynamicCastUnknownClassToMetatype_def getUnknownClassAsMetatype_def)

lemma Diff_Unconditional:
  "insert Unconditional flags - {TakeOnSuccess, DestroyOnFailure} =
   insert Unconditional (flags - {TakeOnSuccess, DestroyOnFailure})"
  "insert Unconditional flags - {DestroyOnFailure, TakeOnSuccess} =
   insert Unconditional (flags - {DestroyOnFailure, TakeOnSuccess})"
  "insert Unconditional flags - {Unconditional, DestroyOnFailure} =
   flags - {Unconditional, DestroyOnFailure}"
  by auto

lemma unconditionalOf_dynamicCastToMetatype:
  "Unconditional \<notin> flags \<Longrightarrow>
   unconditionalOf (dynamicCastToMetatype rt src srcType tt flags)
     (dynamicCastToMetatype rt src srcType tt (insert Unconditional flags))"
proof (induction rt src srcType tt flags rule: dynamicCastToMetatype.induct)
  case (1 rt src srcType targetType flags)
  note u = "1.prems"
  note m = unconditionalOf_dynamicCastMetatypeToMetatype [OF u]
    unconditionalOf_dynamicCastUnknownClassToMetatype [OF u] unconditionalOf_fail [OF u]
  show ?case
  proof (cases "getKind srcType \<in> {Metatype, ExistentialMetatype, Class, ObjCClassWrapper, ForeignClass}")
    case True
    then show ?thesis
      by (subst (1 2) dynamicCastToMetatype.simps) (auto simp: m split: option.splits)
  next
    case False
    show ?thesis
    proof (cases srcType)
      case (ExistentialTypeMetadata rep ps)
      show ?thesis
      proof (cases rep)
        case RepClass
        then show ?thesis
          using False ExistentialTypeMetadata
          by (subst (1 2) dynamicCastToMetatype.simps) (auto simp: m split: OpaqueValue.splits)
      next
        case RepOpaque
        show ?thesis
        proof (cases src)
          case (OpaqueExistentialContainer vt v ws)
          have ih: "unconditionalOf (dynamicCastToMetatype rt v vt targetType flags)
                      (dynamicCastToMetatype rt v vt targetType (insert Unconditional flags))"
            using 1(1) [OF _ _ ExistentialTypeMetadata RepOpaque OpaqueExistentialContainer] False u
            by simp
          show ?thesis
            using False ExistentialTypeMetadata RepOpaque OpaqueExistentialContainer
            by (subst (1 2) dynamicCastToMetatype.simps)
               (simp, rule unconditionalOf_cleanup [OF ih], simp)
        qed (use False ExistentialTypeMetadata RepOpaque in
              \<open>subst (1 2) dynamicCastToMetatype.simps, simp\<close>)+
      next
        case RepErrorProtocol
        show ?thesis
        proof (cases src)
          case (SwiftErrorBox vt v ws)
          have ih: "unconditionalOf
                      (dynamicCastToMetatype rt v vt targetType
                         (flags - {TakeOnSuccess, DestroyOnFailure}))
                      (dynamicCastToMetatype rt v vt targetType
                         (insert Unconditional (flags - {TakeOnSuccess, DestroyOnFailure})))"
            using 1(2) [OF _ _ ExistentialTypeMetadata RepErrorProtocol SwiftErrorBox refl] False u
            by simp
          show ?thesis
            using False ExistentialTypeMetadata RepErrorProtocol SwiftErrorBox
            by (subst (1 2) dynamicCastToMetatype.simps)
               (simp add: Diff_Unconditional Let_def, rule unconditionalOf_cleanup [OF ih], simp)
        qed (use False ExistentialTypeMetadata RepErrorProtocol in
              \<open>subst (1 2) dynamicCastToMetatype.simps, simp\<close>)+
      qed
    qed (use False in \<open>subst (1 2) dynamicCastToMetatype.simps, simp add: m\<close>)+
  qed
qed


lemma unconditionalOf_existentialMetatypeConformances:
  "Unconditional \<notin> flags \<Longrightarrow>
   unconditionalOf (existentialMetatypeConformances rt m t ps flags w slot)
     (existentialMetatypeConformances rt m t ps (insert Unconditional flags) w slot)"
  by (induction ps arbitrary: slot)
     (auto simp: unconditionalOf_withEvents split: sum.splits prod.splits)

lemma unconditionalOf_dynamicCastMetatypeToExistentialMetatype:
  "Unconditional \<notin> flags \<Longrightarrow>
   unconditionalOf (dynamicCastMetatypeToExistentialMetatype rt m t flags w)
     (dynamicCastMetatypeToExistentialMetatype rt m t (insert Unconditional flags) w)"
proof (induction rt m t flags w rule: dynamicCastMetatypeToExistentialMetatype.induct)
  case (1 rt srcMetatype representation protocols flags writeDestMetatype)
  show ?case
    using unconditionalOf_Optional [OF unconditionalOf_existentialMetatypeConformances [OF "1.prems"]]
    by simp
next
  case (2 rt srcMetatype targetInstanceInstanceType flags writeDestMetatype)
  then show ?case
    by (cases srcMetatype) (auto simp: unconditionalOf_withEvents)
qed simp_all

lemma unconditionalOf_dynamicCastUnknownClassToExistentialMetatype:
  "Unconditional \<notin> flags \<Longrightarrow>
   unconditionalOf (dynamicCastUnknownClassToExistentialMetatype rt object tt flags)
     (dynamicCastUnknownClassToExistentialMetatype rt object tt (insert Unconditional flags))"
  by (simp add: dynamicCastUnknownClassToExistentialMetatype_def getUnknownClassAsMetatype_def)

lemma unconditionalOf_dynamicCastToExistentialMetatype:
  "Unconditional \<notin> flags \<Longrightarrow>
   unconditionalOf (dynamicCastToExistentialMetatype rt src srcType tt flags)
     (dynamicCastToExistentialMetatype rt src srcType tt (insert Unconditional flags))"
proof (induction rt src srcType tt flags rule: dynamicCastToExistentialMetatype.induct)
  case (1 rt src srcType targetType flags)
  note u = "1.prems"
  note m = unconditionalOf_dynamicCastMetatypeToExistentialMetatype [OF u]
    unconditionalOf_dynamicCastUnknownClassToExistentialMetatype [OF u] unconditionalOf_fail [OF u]
  show ?case
  proof (cases "getKind srcType \<in> {Metatype, ExistentialMetatype, Class, ObjCClassWrapper, ForeignClass}")
    case True
    then show ?thesis
      by (subst (1 2) dynamicCastToExistentialMetatype.simps) (auto simp: m split: option.splits)
  next
    case False
    show ?thesis
    proof (cases srcType)
      case (ExistentialTypeMetadata rep ps)
      show ?thesis
      proof (cases rep)
        case RepClass
        then show ?thesis
          using False ExistentialTypeMetadata
          by (subst (1 2) dynamicCastToExistentialMetatype.simps)
             (auto simp: m split: OpaqueValue.splits)
      next
        case RepOpaque
        show ?thesis
        proof (cases src)
          case (OpaqueExistentialContainer vt v ws)
          have ih: "unconditionalOf (dynamicCastToExistentialMetatype rt v vt targetType flags)
                      (dynamicCastToExistentialMetatype rt v vt targetType
                         (insert Unconditional flags))"
            using 1(1) [OF _ _ ExistentialTypeMetadata RepOpaque OpaqueExistentialContainer] False u
            by simp
          show ?thesis
            using False ExistentialTypeMetadata RepOpaque OpaqueExistentialContainer
            by (subst (1 2) dynamicCastToExistentialMetatype.simps)
               (simp, rule unconditionalOf_cleanup [OF ih], simp)
        qed (use False ExistentialTypeMetadata RepOpaque in
              \<open>subst (1 2) dynamicCastToExistentialMetatype.simps, simp\<close>)+
      next
        case RepErrorProtocol
        show ?thesis
        proof (cases src)
          case (SwiftErrorBox vt v ws)
          have ih: "unconditionalOf
                      (dynamicCastToExistentialMetatype rt v vt targetType
                         (flags - {TakeOnSuccess, DestroyOnFailure}))
                      (dynamicCastToExistentialMetatype rt v vt targetType
                         (insert Unconditional (flags - {TakeOnSuccess, DestroyOnFailure})))"
            using 1(2) [OF _ _ ExistentialTypeMetadata RepErrorProtocol SwiftErrorBox refl] False u
            by simp
          show ?thesis
            using False ExistentialTypeMetadata RepErrorProtocol SwiftErrorBox
            by (subst (1 2) dynamicCastToExistentialMetatype.simps)
               (simp add: Diff_Unconditional Let_def, rule unconditionalOf_cleanup [OF ih], simp)
        qed (use False ExistentialTypeMetadata RepErrorProtocol in
              \<open>subst (1 2) dynamicCastToExistentialMetatype.simps, simp\<close>)+
      qed
    qed (use False in \<open>subst (1 2) dynamicCastToExistentialMetatype.simps, simp add: m\<close>)+
  qed
qed

lemma unconditionalOf_checkDynamicCastFromOptional:
  assumes "Unconditional \<notin> flags"
  shows
    "checkDynamicCastFromOptional rt src srcType tt (insert Unconditional flags) =
       checkDynamicCastFromOptional rt src srcType tt flags \<and>
     fst (checkDynamicCastFromOptional rt src srcType tt flags) \<noteq>
       Inr (OptionalCastResult False None) \<or>
     fst (checkDynamicCastFromOptional rt src srcType tt flags) =
       Inr (OptionalCastResult False None) \<and>
     isCastFailure (fst (checkDynamicCastFromOptional rt src srcType tt (insert Unconditional flags)))"
proof (cases srcType)
  case (OptionalMetadata payloadType)
  let ?f = "flags - {Unconditional, DestroyOnFailure}"
  obtain x ev0 where a: "dynamicCastToExistential rt src srcType tt ?f = (x, ev0)"
    by (cases "dynamicCastToExistential rt src srcType tt ?f") auto
  show ?thesis
    using assms a
    by (cases src; cases x)
       (auto simp: checkDynamicCastFromOptional_def OptionalMetadata Diff_Unconditional
          fail_def withEvents_def Let_def split: bool.splits)
qed (simp_all add: checkDynamicCastFromOptional_def)


lemma unconditionalOf_dynamicCastFromExistential:
  assumes "Unconditional \<notin> flags"
    and "\<And>v t f. containerDepth v < containerDepth src \<Longrightarrow> Unconditional \<notin> f \<Longrightarrow>
           unconditionalOf (swift_dynamicCast rt v t targetType f)
             (swift_dynamicCast rt v t targetType (insert Unconditional f))"
  shows "unconditionalOf (dynamicCastFromExistential rt src srcType targetType flags)
           (dynamicCastFromExistential rt src srcType targetType (insert Unconditional flags))"
proof (cases srcType)
  case (ExistentialTypeMetadata rep ps)
  show ?thesis
  proof (cases "capturedValue rt rep src")
    case None
    then show ?thesis
      by (subst (1 2) dynamicCastFromExistential.simps) (simp add: ExistentialTypeMetadata)
  next
    case (Some a)
    obtain v t outOfLine c where a: "a = (v, t, outOfLine, c)"
      by (cases a) auto
    note d = containerDepth_capturedValue [OF Some [unfolded a]]
    show ?thesis
    proof (cases c)
      case True
      have ih: "unconditionalOf (swift_dynamicCast rt v t targetType flags)
                  (swift_dynamicCast rt v t targetType (insert Unconditional flags))"
        using assms(2) [OF d assms(1)] .
      show ?thesis
        by (subst (1 2) dynamicCastFromExistential.simps)
           (simp add: ExistentialTypeMetadata Some a True,
            rule unconditionalOf_cleanup [OF ih], simp)
    next
      case False
      have ih: "unconditionalOf
                  (swift_dynamicCast rt v t targetType (flags - {DestroyOnFailure, TakeOnSuccess}))
                  (swift_dynamicCast rt v t targetType
                     (insert Unconditional (flags - {DestroyOnFailure, TakeOnSuccess})))"
        using assms(2) [OF d, of "flags - {DestroyOnFailure, TakeOnSuccess}"] assms(1) by simp
      show ?thesis
        by (subst (1 2) dynamicCastFromExistential.simps)
           (simp add: ExistentialTypeMetadata Some a False Diff_Unconditional,
            rule unconditionalOf_cleanup [OF ih], simp)
    qed
  qed
qed (subst (1 2) dynamicCastFromExistential.simps, simp)+

lemma unconditionalOf_dynamicCastToUnknownClassFromExistential:
  assumes "Unconditional \<notin> flags"
    and "\<And>v t f. containerDepth v < containerDepth src \<Longrightarrow> Unconditional \<notin> f \<Longrightarrow>
           unconditionalOf (swift_dynamicCast rt v t targetType f)
             (swift_dynamicCast rt v t targetType (insert Unconditional f))"
  shows "unconditionalOf
           (dynamicCastToUnknownClassFromExistential rt src srcType targetType flags)
           (dynamicCastToUnknownClassFromExistential rt src srcType targetType
              (insert Unconditional flags))"
proof (cases srcType)
  case (ExistentialTypeMetadata rep ps)
  show ?thesis
  proof (cases rep)
    case RepClass
    then show ?thesis
      using assms(1)
      by (subst (1 2) dynamicCastToUnknownClassFromExistential.simps)
         (auto simp: ExistentialTypeMetadata unconditionalOf_dynamicCastUnknownClassIndirect
            split: OpaqueValue.splits)
  next
    case RepOpaque
    show ?thesis
    proof (cases src)
      case (OpaqueExistentialContainer t v ws)
      have ih: "unconditionalOf (swift_dynamicCast rt v t targetType flags)
                  (swift_dynamicCast rt v t targetType (insert Unconditional flags))"
        using assms(2) [of v flags t] assms(1) OpaqueExistentialContainer by simp
      show ?thesis
        by (subst (1 2) dynamicCastToUnknownClassFromExistential.simps)
           (simp add: ExistentialTypeMetadata RepOpaque OpaqueExistentialContainer,
            rule unconditionalOf_cleanup [OF ih], simp)
    qed (subst (1 2) dynamicCastToUnknownClassFromExistential.simps,
         simp add: ExistentialTypeMetadata RepOpaque)+
  next
    case RepErrorProtocol
    show ?thesis
    proof (cases src)
      case (SwiftErrorBox t v ws)
      have ih: "unconditionalOf
                  (swift_dynamicCast rt v t targetType (flags - {TakeOnSuccess, DestroyOnFailure}))
                  (swift_dynamicCast rt v t targetType
                     (insert Unconditional (flags - {TakeOnSuccess, DestroyOnFailure})))"
        using assms(2) [of v "flags - {TakeOnSuccess, DestroyOnFailure}" t] assms(1) SwiftErrorBox
        by simp
      show ?thesis
        by (subst (1 2) dynamicCastToUnknownClassFromExistential.simps)
           (simp add: ExistentialTypeMetadata RepErrorProtocol SwiftErrorBox Diff_Unconditional
              Let_def,
            rule unconditionalOf_cleanup [OF ih], simp)
    qed (subst (1 2) dynamicCastToUnknownClassFromExistential.simps,
         simp add: ExistentialTypeMetadata RepErrorProtocol)+
  qed
qed (subst (1 2) dynamicCastToUnknownClassFromExistential.simps, simp)+

lemma unconditionalOf_dynamicCastToFunction:
  assumes "Unconditional \<notin> flags"
    and "\<And>v t f. containerDepth v < containerDepth src \<Longrightarrow> Unconditional \<notin> f \<Longrightarrow>
           unconditionalOf (swift_dynamicCast rt v t targetType f)
             (swift_dynamicCast rt v t targetType (insert Unconditional f))"
  shows "unconditionalOf (dynamicCastToFunction rt src srcType targetType flags)
           (dynamicCastToFunction rt src srcType targetType (insert Unconditional flags))"
proof (cases "srcType = targetType")
  case True
  then show ?thesis
    by (subst (1 2) dynamicCastToFunction.simps) (simp add: succeed_def)
next
  case False
  note e = unconditionalOf_dynamicCastFromExistential [OF assms, of _]
  note f = unconditionalOf_fail [OF assms(1)]
  show ?thesis
  proof (cases srcType)
    case s: (FunctionTypeMetadata sc sth sargs sres)
    show ?thesis
    proof (cases targetType)
      case (FunctionTypeMetadata tc tth targs tres)
      show ?thesis
        unfolding s FunctionTypeMetadata dynamicCastToFunction_functions
        by (simp add: f succeed_def)
    qed (use False s in \<open>subst (1 2) dynamicCastToFunction.simps, simp\<close>)+
  qed (use False in \<open>subst (1 2) dynamicCastToFunction.simps, simp add: f e\<close>)+
qed

lemma unconditionalOf_swift_dynamicCast:
  "Unconditional \<notin> flags \<Longrightarrow>
   unconditionalOf (swift_dynamicCast rt src srcType targetType flags)
     (swift_dynamicCast rt src srcType targetType (insert Unconditional flags))"
proof (induction "containerDepth src + size targetType"
    arbitrary: src srcType targetType flags rule: less_induct)
  case less
  note u = less.prems
  have ih: "unconditionalOf (swift_dynamicCast rt v vt t f)
              (swift_dynamicCast rt v vt t (insert Unconditional f))"
    if "containerDepth v + size t < containerDepth src + size targetType" "Unconditional \<notin> f"
    for v vt t f
    using less.hyps [OF that] .
  let ?src = "payloadOf srcType src"
  have inner: "unconditionalOf (swift_dynamicCast rt v t targetType f)
                 (swift_dynamicCast rt v t targetType (insert Unconditional f))"
    if "containerDepth v < containerDepth ?src" "Unconditional \<notin> f" for v t f
    using ih [of v targetType f t] that containerDepth_payloadOf [of srcType src] by simp
  let ?chk = "checkDynamicCastFromOptional rt src srcType targetType"
  obtain x ev where chk: "?chk flags = (x, ev)"
    by (cases "?chk flags") auto
  from unconditionalOf_checkDynamicCastFromOptional [OF u, of rt src srcType targetType]
  consider (same) "?chk (insert Unconditional flags) = (x, ev)"
      "x \<noteq> Inr (OptionalCastResult False None)"
    | (abort) "x = Inr (OptionalCastResult False None)"
      "isCastFailure (fst (?chk (insert Unconditional flags)))"
    using chk by auto
  then show ?case
  proof cases
    case abort
    obtain y ev' where c: "?chk (insert Unconditional flags) = (y, ev')"
      by (cases "?chk (insert Unconditional flags)") auto
    with abort(2) obtain s t where y: "y = Inl (CastFailure s t)"
      by (auto elim: isCastFailure.elims)
    show ?thesis
      by (subst (1 2) swift_dynamicCast.simps) (simp add: chk abort(1) c y)
  next
    case same
    show ?thesis
    proof (cases x)
      case (Inl a)
      then show ?thesis
        by (subst (1 2) swift_dynamicCast.simps) (simp add: chk same(1))
    next
      case (Inr r)
      obtain s po where r: "r = OptionalCastResult s po"
        by (cases r) auto
      show ?thesis
      proof (cases po)
        case None
        with same(2) Inr r have "s" by simp
        then show ?thesis
          by (subst (1 2) swift_dynamicCast.simps) (simp add: chk same(1) Inr r None)
      next
        case (Some p)
        note fe = unconditionalOf_dynamicCastFromExistential [of flags ?src rt targetType p,
            OF u inner]
        note fu = unconditionalOf_dynamicCastToUnknownClassFromExistential
            [of flags ?src rt targetType p, OF u inner]
        note ff = unconditionalOf_dynamicCastToFunction [of flags ?src rt targetType p, OF u inner]
        have opt: "unconditionalOf
            (case swift_dynamicCast rt ?src p pt flags of
               (Inr True, ev') \<Rightarrow> (Inr True, ev' @ [Swift_storeEnumTagSinglePayload pt (- 1)])
             | r \<Rightarrow> r)
            (case swift_dynamicCast rt ?src p pt (insert Unconditional flags) of
               (Inr True, ev') \<Rightarrow> (Inr True, ev' @ [Swift_storeEnumTagSinglePayload pt (- 1)])
             | r \<Rightarrow> r)" if "targetType = OptionalMetadata pt" for pt
          using ih [of ?src pt flags p] that containerDepth_payloadOf [of srcType src] u
          by (intro unconditionalOf_Optional) simp
        note known = unconditionalOf_dynamicCastToExistential [OF u]
          unconditionalOf_dynamicCastToMetatype [OF u]
          unconditionalOf_dynamicCastToExistentialMetatype [OF u]
          unconditionalOf_dynamicCastUnknownClassIndirect [OF u]
          unconditionalOf_fail [OF u]
        show ?thesis
          using fe fu ff opt
          apply (subst (1 2) swift_dynamicCast.simps)
          apply (simp only: chk same(1) Inr r Some prod.case sum.case option.case
              OptionalCastResult.sel Let_def)
          apply (rule unconditionalOf_withEvents)
          apply (cases targetType; simp add: known succeed_def split: option.splits)
          done
      qed
    qed
  qed
qed

lemma plain_mismatch:
  assumes "getKind srcType \<in> {Struct, Enum, Opaque, Tuple}"
    and "getKind targetType \<in> {Struct, Enum, Opaque, Tuple}"
    and "srcType \<noteq> targetType"
  shows "swift_dynamicCast rt src srcType targetType flags =
           fail src srcType targetType flags None"
  using assms
  by (subst swift_dynamicCast.simps)
     (cases srcType; cases targetType; simp add: checkDynamicCastFromOptional_def)

lemma class_mismatch:
  assumes "getKind srcType = Class" and "getKind targetType = Class"
    and "\<not> isSubclassOrEqual (isa object) targetType" and "Unconditional \<in> flags"
  shows "swift_dynamicCast rt (Reference object) srcType targetType flags =
           (Inl (CastFailure (isa object) targetType), [])"
  using assms dynamicCastClassMetatype_subclass [of "isa object" targetType]
  by (subst swift_dynamicCast.simps)
     (cases srcType; cases targetType;
      auto simp: checkDynamicCastFromOptional_def dynamicCastUnknownClassIndirect_def
        swift_dynamicCastUnknownClassUnconditional_def swift_dynamicCastClassUnconditional_def
        swift_dynamicCastClass_def isNull_def split: option.splits)



subsection \<open>The destination of a failed cast\<close>




subsection \<open>The ownership of the source\<close>




subsection \<open>The cast of a value to its own type\<close>

lemma identity_plain:
  assumes "getKind T \<in> {Struct, Enum, Opaque, Tuple, Function, HeapLocalVariable,
                         HeapGenericLocalVariable, ErrorObject}"
  shows "swift_dynamicCast rt v T T flags = succeed v T flags"
  using assms
  by (subst swift_dynamicCast.simps)
     (cases T; simp add: checkDynamicCastFromOptional_def dynamicCastToFunction.simps)

lemma identity_class:
  assumes "getKind T = Class" and "isSubclassOrEqual (isa object) T"
  shows "swift_dynamicCast rt (Reference object) T T {} =
           (Inr True, [StoreObject object, Swift_unknownRetain object])"
  using assms dynamicCastClassMetatype_subclass [of "isa object" T]
  by (subst swift_dynamicCast.simps)
     (cases T; auto simp: checkDynamicCastFromOptional_def dynamicCastUnknownClassIndirect_def
        swift_dynamicCastUnknownClass_def swift_dynamicCastClass_def isNull_def
        split: option.splits)

lemma identity_none:
  "swift_dynamicCast rt OptionalNone (OptionalMetadata p) (OptionalMetadata p) {} =
     (Inr True,
      [Swift_storeEnumTagSinglePayload p 0,
       Vw_initializeWithCopy (OptionalMetadata p) OptionalNone])"
  by (subst swift_dynamicCast.simps) (simp add: checkDynamicCastFromOptional_def succeed_def)

lemma identity_some:
  assumes "getKind p \<noteq> Existential"
  shows "swift_dynamicCast rt (OptionalSome w) (OptionalMetadata p) (OptionalMetadata p) flags =
     (case swift_dynamicCast rt w p p flags of
        (Inr True, ev) \<Rightarrow> (Inr True, ev @ [Swift_storeEnumTagSinglePayload p (- 1)])
      | r \<Rightarrow> r)"
  using assms
  by (subst swift_dynamicCast.simps) (simp add: checkDynamicCastFromOptional_def)

lemma identity_opaque_existential:
  assumes "getKind d \<in> {Function, HeapLocalVariable, HeapGenericLocalVariable, ErrorObject, Enum,
                    Optional, Opaque, Struct, Tuple}"
    and "conformsToProtocols rt d ps 0 = (Inr True, wts)"
  shows "swift_dynamicCast rt (OpaqueExistentialContainer d x ws)
           (ExistentialTypeMetadata RepOpaque ps) (ExistentialTypeMetadata RepOpaque ps) {} =
         (Inr True,
          storeWitnessTables wts @ [StoreType d, Vw_initializeBufferWithCopy d x])"
  using assms findDynamicValueAndType_terminal [OF assms(1), of rt "storedInline rt d" x True]
  by (subst swift_dynamicCast.simps)
     (simp add: checkDynamicCastFromOptional_def dynamicCastToExistential_def
        findDynamicValueAndType.simps [of _ _ "OpaqueExistentialContainer d x ws"]
        shouldDeallocateSource_def)

lemma identity_class_existential:
  assumes "conformsToProtocols rt (isa object) ps 0 = (Inr True, wts)"
    and "getKind (isa object) = Class"
  shows "swift_dynamicCast rt (ClassExistentialContainer object ws)
           (ExistentialTypeMetadata RepClass ps) (ExistentialTypeMetadata RepClass ps) {} =
         (Inr True, storeWitnessTables wts @ [StoreObject object, Swift_retain object])"
  using assms
  by (subst swift_dynamicCast.simps)
     (simp add: checkDynamicCastFromOptional_def dynamicCastToExistential_def
        findDynamicValueAndType.simps [of _ _ "ClassExistentialContainer object ws"]
        shouldDeallocateSource_def)

lemma identity_existential_metatype:
  assumes "existentialMetatypeConformances rt m
             (ExistentialMetatypeMetadata (ExistentialTypeMetadata rep ps)) ps {} True 0 =
           (Inr True, ev)"
  shows "swift_dynamicCast rt (ExistentialMetatypeContainer m ws)
           (ExistentialMetatypeMetadata (ExistentialTypeMetadata rep ps))
           (ExistentialMetatypeMetadata (ExistentialTypeMetadata rep ps)) {} =
         (Inr True, ev @ [StoreMetatype m])"
  using assms
  by (subst swift_dynamicCast.simps)
     (simp add: checkDynamicCastFromOptional_def dynamicCastToExistentialMetatype.simps)


lemma identity_metatype:
  assumes "getKind t \<notin> {Class, ObjCClassWrapper, ForeignClass}"
  shows "swift_dynamicCast rt (MetatypeValue t) (MetatypeMetadata t) (MetatypeMetadata t) {} =
           (Inr True, [StoreMetatype t])"
  using assms cast_of_metatype_word [of "MetatypeMetadata t" "MetatypeValue t" t rt t "{}"]
    metatype_not_class [of t t rt "{}"]
  by simp

lemma identity_class_metatype:
  assumes "getKind m = Class" and "getKind t = Class" and "isSubclassOrEqual m t"
  shows "swift_dynamicCast rt (MetatypeValue m) (MetatypeMetadata t) (MetatypeMetadata t) {} =
           (Inr True, [StoreMetatype m])"
  using assms cast_of_metatype_word [of "MetatypeMetadata t" "MetatypeValue m" m rt t "{}"]
    metatype_classes [of m t rt "{}"]
  by (simp add: getKind_Class_wrappedClass)

lemma identity_optional_existential:
  assumes "getKind d \<in> {Function, HeapLocalVariable, HeapGenericLocalVariable, ErrorObject, Enum,
                    Opaque, Struct, Tuple}"
    and "conformsToProtocols rt d ps 0 = (Inr True, wts)"
  shows "swift_dynamicCast rt (OptionalSome (OpaqueExistentialContainer d x ws))
           (OptionalMetadata (ExistentialTypeMetadata RepOpaque ps))
           (OptionalMetadata (ExistentialTypeMetadata RepOpaque ps)) {} =
         (Inr True,
          storeWitnessTables wts @
          [StoreType d, Vw_initializeBufferWithCopy d x,
           Swift_storeEnumTagSinglePayload (ExistentialTypeMetadata RepOpaque ps) (- 1)])"
proof -
  let ?E = "ExistentialTypeMetadata RepOpaque ps"
  have k: "getKind d \<noteq> Optional" and e: "getKind d \<noteq> Existential"
    using assms(1) by auto
  have t: "findDynamicValueAndType rt True x d True = Inr (True, x, d, True)"
    using assms(1) by (intro findDynamicValueAndType_terminal) auto
  have s1: "swift_dynamicCast rt x d ?E {} =
              (Inr True, storeWitnessTables wts @ [StoreType d, Vw_initializeBufferWithCopy d x])"
    using assms(2) t
    by (subst swift_dynamicCast.simps)
       (simp add: checkDynamicCastFromOptional_nonOptional [OF k] payloadOf_nonOptional [OF k]
          dynamicCastToExistential_def shouldDeallocateSource_def)
  have s2: "swift_dynamicCast rt x d (OptionalMetadata ?E) {} =
              (Inr True,
               storeWitnessTables wts @
               [StoreType d, Vw_initializeBufferWithCopy d x,
                Swift_storeEnumTagSinglePayload ?E (- 1)])"
    using e
    by (subst swift_dynamicCast.simps)
       (simp add: checkDynamicCastFromOptional_nonOptional [OF k] payloadOf_nonOptional [OF k] s1)
  have s3: "dynamicCastFromExistential rt (OpaqueExistentialContainer d x ws) ?E
              (OptionalMetadata ?E) {} =
              (Inr True,
               storeWitnessTables wts @
               [StoreType d, Vw_initializeBufferWithCopy d x,
                Swift_storeEnumTagSinglePayload ?E (- 1)])"
    by (subst dynamicCastFromExistential.simps)
       (simp add: s2 maybeDeallocateOpaqueExistential_def shouldDeallocateSource_def)
  show ?thesis
    by (subst swift_dynamicCast.simps) (simp add: checkDynamicCastFromOptional_def s3)
qed




end
